theory Spec2Isabelle
  imports Main
begin

section \<open>Errors\<close>

text \<open>
  The exceptions of the modelled code. \<open>IntegrityError\<close> and \<open>OverflowError\<close> are raised
  by sqlite3, \<open>Forbidden\<close> and \<open>HTTPException\<close> by discord.py's platform calls. A function
  that can raise returns a sum whose \<open>Inl\<close> is the exception leaving the function. Where
  the function may have written before it raises, \<open>Inl\<close> holds the exception and the state
  it leaves; \<^verbatim>\<open>get_user_data\<close> raises before it has written anything, so its \<open>Inl\<close> holds
  the exception alone and the state is the one before the call.
\<close>

datatype error = KeyError | IntegrityError | OverflowError | Forbidden | HTTPException

section \<open>Level table\<close>

text \<open>
  \<^verbatim>\<open>LEVEL_THRESHOLDS = {1: 0, 2: 100, 3: 500, 4: 1200, 5: 2200, 6: 3500, 7: 5100,
  8: 7000, 9: 9200, 10: 11700}\<close>, a dict from level to minimum XP.
\<close>

definition LEVEL_THRESHOLDS :: "int \<rightharpoonup> int" where
  "LEVEL_THRESHOLDS = map_of
     [(1, 0), (2, 100), (3, 500), (4, 1200), (5, 2200),
      (6, 3500), (7, 5100), (8, 7000), (9, 9200), (10, 11700)]"

text \<open>
  \<^verbatim>\<open>for level in range(10, 0, -1): if xp >= LEVEL_THRESHOLDS[level]: return level\<close>
  and \<^verbatim>\<open>return 1\<close> after the loop. The subscript raises KeyError on a missing key.
\<close>

fun calculate_level_loop :: "int list \<Rightarrow> int \<Rightarrow> error + int" where
  "calculate_level_loop [] xp = Inr 1"
| "calculate_level_loop (level # rest) xp =
     (case LEVEL_THRESHOLDS level of
        None \<Rightarrow> Inl KeyError
      | Some t \<Rightarrow> if xp \<ge> t then Inr level else calculate_level_loop rest xp)"

definition calculate_level :: "int \<Rightarrow> error + int" where
  "calculate_level xp = calculate_level_loop [10, 9, 8, 7, 6, 5, 4, 3, 2, 1] xp"

section \<open>The SQLite database\<close>

text \<open>
  The three tables of \<^verbatim>\<open>init_database\<close>. A table is the list of its rows in insertion
  order. INTEGER columns are Python ints. The TEXT columns \<^verbatim>\<open>completed_users\<close> and
  \<^verbatim>\<open>role_xp_assignments\<close> hold \<^verbatim>\<open>json.dumps\<close> of a list of ints and of a dict from
  str to int, read back with \<^verbatim>\<open>json.loads\<close>; the rows hold the decoded values.
\<close>

record user_row =
  row_user_id :: int
  row_guild_id :: int
  row_xp :: int
  row_level :: int

record quest_row =
  q_message_id :: int
  q_guild_id :: int
  q_channel_id :: int
  q_title :: string
  q_content :: string
  q_completed_users :: "int list"

record settings_row =
  st_guild_id :: int
  st_quest_ping_role_id :: "int option"
  st_quest_channel_id :: "int option"
  st_role_xp_assignments :: "string \<rightharpoonup> int"

record database =
  users :: "user_row list"
  quests :: "quest_row list"
  settings :: "settings_row list"

text \<open>
  \<^verbatim>\<open>SELECT xp, level FROM users WHERE user_id = ? AND guild_id = ?\<close> with
  \<^verbatim>\<open>fetchone()\<close>: the first matching row, or None.
\<close>

definition select_user :: "database \<Rightarrow> int \<Rightarrow> int \<Rightarrow> user_row option" where
  "select_user db uid gid =
     find (\<lambda>r. row_user_id r = uid \<and> row_guild_id r = gid) (users db)"

text \<open>
  \<^verbatim>\<open>INSERT INTO users (user_id, guild_id, xp, level) VALUES (?, ?, 0, 1)\<close> against the
  table's constraints \<^verbatim>\<open>user_id INTEGER PRIMARY KEY\<close> and \<^verbatim>\<open>UNIQUE(user_id, guild_id)\<close>:
  sqlite3 raises IntegrityError when a row with the same \<^verbatim>\<open>user_id\<close> is stored already,
  whatever its \<^verbatim>\<open>guild_id\<close>.
\<close>

definition insert_user :: "database \<Rightarrow> user_row \<Rightarrow> error + database" where
  "insert_user db r =
     (if list_ex (\<lambda>x. row_user_id x = row_user_id r) (users db)
      then Inl IntegrityError
      else if list_ex (\<lambda>x. row_user_id x = row_user_id r \<and> row_guild_id x = row_guild_id r) (users db)
      then Inl IntegrityError
      else Inr (db\<lparr>users := users db @ [r]\<rparr>))"

text \<open>
  An INTEGER of SQLite is a signed 64-bit number: binding a Python int outside that range to
  a statement raises OverflowError (Python int too large to convert to SQLite INTEGER) and the
  statement is not run. User, guild, message and role ids are Discord snowflakes, inside
  the range; the one bound value the code computes is the new xp.
\<close>

definition sqlite_integer :: "int \<Rightarrow> bool" where
  "sqlite_integer i = (- (2 ^ 63) \<le> i \<and> i < 2 ^ 63)"

text \<open>\<^verbatim>\<open>UPDATE users SET xp = ?, level = ? WHERE user_id = ? AND guild_id = ?\<close>\<close>

definition update_user :: "database \<Rightarrow> int \<Rightarrow> int \<Rightarrow> int \<Rightarrow> int \<Rightarrow> database" where
  "update_user db new_xp new_level uid gid =
     db\<lparr>users :=
          map (\<lambda>r. if row_user_id r = uid \<and> row_guild_id r = gid
                    then r\<lparr>row_xp := new_xp, row_level := new_level\<rparr> else r)
              (users db)\<rparr>"

section \<open>The bot object\<close>

text \<open>
  A reconciliation task created by \<^verbatim>\<open>asyncio.create_task(self.update_user_level_role(user_id,
  guild_id, old_level, new_level))\<close>: the arguments of the coroutine.
\<close>

record task =
  task_user_id :: int
  task_guild_id :: int
  task_old_level :: int
  task_new_level :: int

text \<open>
  The attributes of \<^verbatim>\<open>class QuestBot\<close>. \<^verbatim>\<open>quest_ping_role_id\<close> and \<^verbatim>\<open>quest_channel_id\<close>
  are one attribute each for the whole process; \<^verbatim>\<open>role_xp_assignments\<close> is a dict keyed by
  guild id, of dicts keyed by \<^verbatim>\<open>str(role.id)\<close>. \<^verbatim>\<open>tasks\<close> is not an attribute: it is the event
  loop's queue of tasks created and not yet run, kept in the same record so that one state
  is threaded through the calls.
\<close>

record quest_bot =
  db_connection :: "database option"
  quest_ping_role_id :: "int option"
  quest_channel_id :: "int option"
  role_xp_assignments :: "int \<rightharpoonup> (string \<rightharpoonup> int)"
  tasks :: "task list"

text \<open>
  \<^verbatim>\<open>QuestBot.__init__\<close> followed by \<^verbatim>\<open>init_database\<close> on a new database file: the three
  tables exist and are empty.
\<close>

definition init_bot :: quest_bot where
  "init_bot =
     \<lparr>db_connection = Some \<lparr>users = [], quests = [], settings = []\<rparr>,
      quest_ping_role_id = None, quest_channel_id = None,
      role_xp_assignments = Map.empty, tasks = []\<rparr>"

section \<open>XP ledger\<close>

text \<open>
  \<^verbatim>\<open>get_user_data\<close>: the dict \<^verbatim>\<open>{'xp': .., 'level': ..}\<close> is the pair \<open>(xp, level)\<close>. A missing
  row is inserted with xp 0 and level 1 and committed.
\<close>

definition get_user_data :: "quest_bot \<Rightarrow> int \<Rightarrow> int \<Rightarrow> error + (quest_bot \<times> int \<times> int)" where
  "get_user_data s uid gid =
     (case db_connection s of
        None \<Rightarrow> Inr (s, 0, 1)
      | Some db \<Rightarrow>
          (case select_user db uid gid of
             Some r \<Rightarrow> Inr (s, row_xp r, row_level r)
           | None \<Rightarrow>
               (case insert_user db \<lparr>row_user_id = uid, row_guild_id = gid, row_xp = 0, row_level = 1\<rparr> of
                  Inl e \<Rightarrow> Inl e
                | Inr db' \<Rightarrow> Inr (s\<lparr>db_connection := Some db'\<rparr>, 0, 1))))"

text \<open>
  \<^verbatim>\<open>update_user_xp\<close> of main.py: read through \<^verbatim>\<open>get_user_data\<close>, clamp at 0, recompute the
  level, \<^verbatim>\<open>UPDATE\<close>, commit, return \<^verbatim>\<open>(new_xp, new_level)\<close>. It is a plain \<^verbatim>\<open>def\<close>. The
  \<^verbatim>\<open>UPDATE\<close> raises OverflowError for a new xp outside SQLite's range; the record that
  \<^verbatim>\<open>get_user_data\<close> may have created is committed by then.
\<close>

definition update_user_xp :: "quest_bot \<Rightarrow> int \<Rightarrow> int \<Rightarrow> int \<Rightarrow> (error \<times> quest_bot) + (quest_bot \<times> int \<times> int)" where
  "update_user_xp s uid gid xp_change =
     (case db_connection s of
        None \<Rightarrow> Inr (s, 0, 1)
      | Some _ \<Rightarrow>
          (case get_user_data s uid gid of
             Inl e \<Rightarrow> Inl (e, s)
           | Inr (s1, cur_xp, cur_level) \<Rightarrow>
               (let new_xp = max 0 (cur_xp + xp_change) in
                case calculate_level new_xp of
                  Inl e \<Rightarrow> Inl (e, s1)
                | Inr new_level \<Rightarrow>
                    if \<not> sqlite_integer new_xp then Inl (OverflowError, s1)
                    else
                      Inr (s1\<lparr>db_connection :=
                                map_option (\<lambda>db. update_user db new_xp new_level uid gid) (db_connection s1)\<rparr>,
                           new_xp, new_level))))"

text \<open>
  \<^verbatim>\<open>update_user_xp\<close> of bot 4.py: the same, and after the commit
  \<^verbatim>\<open>if old_level != new_level: asyncio.create_task(self.update_user_level_role(...))\<close>.
  \<^verbatim>\<open>create_task\<close> puts the coroutine on the loop's queue and returns. An exception of the
  \<^verbatim>\<open>UPDATE\<close> leaves the function before that line.
\<close>

definition update_user_xp_bot4 :: "quest_bot \<Rightarrow> int \<Rightarrow> int \<Rightarrow> int \<Rightarrow> (error \<times> quest_bot) + (quest_bot \<times> int \<times> int)" where
  "update_user_xp_bot4 s uid gid xp_change =
     (case db_connection s of
        None \<Rightarrow> Inr (s, 0, 1)
      | Some _ \<Rightarrow>
          (case get_user_data s uid gid of
             Inl e \<Rightarrow> Inl (e, s)
           | Inr (s1, cur_xp, old_level) \<Rightarrow>
               (let new_xp = max 0 (cur_xp + xp_change) in
                case calculate_level new_xp of
                  Inl e \<Rightarrow> Inl (e, s1)
                | Inr new_level \<Rightarrow>
                    if \<not> sqlite_integer new_xp then Inl (OverflowError, s1)
                    else
                      (let s2 = s1\<lparr>db_connection :=
                                     map_option (\<lambda>db. update_user db new_xp new_level uid gid) (db_connection s1)\<rparr>;
                           s3 = (if old_level \<noteq> new_level
                                 then s2\<lparr>tasks := tasks s2 @
                                         [\<lparr>task_user_id = uid, task_guild_id = gid,
                                           task_old_level = old_level, task_new_level = new_level\<rparr>]\<rparr>
                                 else s2)
                       in Inr (s3, new_xp, new_level)))))"

text \<open>The record stored for a pair, as a later \<^verbatim>\<open>SELECT\<close> reads it.\<close>

definition stored_record :: "quest_bot \<Rightarrow> int \<Rightarrow> int \<Rightarrow> (int \<times> int) option" where
  "stored_record s uid gid =
     (case db_connection s of
        None \<Rightarrow> None
      | Some db \<Rightarrow> map_option (\<lambda>r. (row_xp r, row_level r)) (select_user db uid gid))"

section \<open>Quest completion\<close>

text \<open>\<^verbatim>\<open>SELECT title, completed_users FROM quests WHERE message_id = ?\<close> with \<^verbatim>\<open>fetchone()\<close>\<close>

definition select_quest :: "database \<Rightarrow> int \<Rightarrow> quest_row option" where
  "select_quest db mid = find (\<lambda>q. q_message_id q = mid) (quests db)"

text \<open>\<^verbatim>\<open>UPDATE quests SET completed_users = ? WHERE message_id = ?\<close>\<close>

definition update_quest_completed :: "database \<Rightarrow> int list \<Rightarrow> int \<Rightarrow> database" where
  "update_quest_completed db completed mid =
     db\<lparr>quests :=
          map (\<lambda>q. if q_message_id q = mid then q\<lparr>q_completed_users := completed\<rparr> else q)
              (quests db)\<rparr>"

text \<open>
  What \<^verbatim>\<open>on_reaction_add(reaction, user)\<close> reads of its arguments: \<^verbatim>\<open>user.bot\<close>,
  \<^verbatim>\<open>user.id\<close>, \<^verbatim>\<open>str(reaction.emoji)\<close>, \<^verbatim>\<open>reaction.message.id\<close> and
  \<^verbatim>\<open>reaction.message.guild.id\<close>.
\<close>

record reaction_event =
  ev_user_bot :: bool
  ev_user_id :: int
  ev_emoji :: string
  ev_message_id :: int
  ev_guild_id :: int

text \<open>
  The white heavy check mark U+2705, as its UTF-8 bytes: what \<^verbatim>\<open>str(reaction.emoji)\<close> is
  for that reaction, and the literal bot 4.py compares it with.
\<close>

definition check_mark :: string where
  "check_mark = [CHR 0xE2, CHR 0x9C, CHR 0x85]"

text \<open>
  The literal main.py compares with: the three characters U+201A U+00FA U+00D6 (the bytes
  of the check mark read as Mac Roman), as their UTF-8 bytes. It is no emoji.
\<close>

definition main_py_literal :: string where
  "main_py_literal = [CHR 0xE2, CHR 0x80, CHR 0x9A, CHR 0xC3, CHR 0xBA, CHR 0xC3, CHR 0x96]"

text \<open>
  \<^verbatim>\<open>on_reaction_add\<close> of main.py up to its only \<^verbatim>\<open>await\<close>, the confirmation message sent
  at the end of the award branch. The result holds the \<^verbatim>\<open>(new_xp, new_level)\<close> shown in
  that message, or None when no message is sent.
\<close>

definition on_reaction_add :: "quest_bot \<Rightarrow> reaction_event \<Rightarrow> (error \<times> quest_bot) + (quest_bot \<times> (int \<times> int) option)" where
  "on_reaction_add s ev =
     (if ev_user_bot ev then Inr (s, None)
      else if ev_emoji ev = main_py_literal then
        (case db_connection s of
           None \<Rightarrow> Inr (s, None)
         | Some db \<Rightarrow>
             (case select_quest db (ev_message_id ev) of
                None \<Rightarrow> Inr (s, None)
              | Some quest_data \<Rightarrow>
                  (let completed_users = q_completed_users quest_data in
                   if ev_user_id ev \<notin> set completed_users then
                     (case update_user_xp s (ev_user_id ev) (ev_guild_id ev) 50 of
                        Inl err \<Rightarrow> Inl err
                      | Inr (s1, new_xp, new_level) \<Rightarrow>
                          Inr (s1\<lparr>db_connection :=
                                    map_option
                                      (\<lambda>db1. update_quest_completed db1
                                                (completed_users @ [ev_user_id ev]) (ev_message_id ev))
                                      (db_connection s1)\<rparr>,
                               Some (new_xp, new_level)))
                   else Inr (s, None))))
      else Inr (s, None))"

text \<open>
  \<^verbatim>\<open>on_reaction_add\<close> of bot 4.py: the same text with the check mark as the literal,
  calling that file's \<^verbatim>\<open>update_user_xp\<close>.
\<close>

definition on_reaction_add_bot4 :: "quest_bot \<Rightarrow> reaction_event \<Rightarrow> (error \<times> quest_bot) + (quest_bot \<times> (int \<times> int) option)" where
  "on_reaction_add_bot4 s ev =
     (if ev_user_bot ev then Inr (s, None)
      else if ev_emoji ev = check_mark then
        (case db_connection s of
           None \<Rightarrow> Inr (s, None)
         | Some db \<Rightarrow>
             (case select_quest db (ev_message_id ev) of
                None \<Rightarrow> Inr (s, None)
              | Some quest_data \<Rightarrow>
                  (let completed_users = q_completed_users quest_data in
                   if ev_user_id ev \<notin> set completed_users then
                     (case update_user_xp_bot4 s (ev_user_id ev) (ev_guild_id ev) 50 of
                        Inl err \<Rightarrow> Inl err
                      | Inr (s1, new_xp, new_level) \<Rightarrow>
                          Inr (s1\<lparr>db_connection :=
                                    map_option
                                      (\<lambda>db1. update_quest_completed db1
                                                (completed_users @ [ev_user_id ev]) (ev_message_id ev))
                                      (db_connection s1)\<rparr>,
                               Some (new_xp, new_level)))
                   else Inr (s, None))))
      else Inr (s, None))"

text \<open>
  The end of \<^verbatim>\<open>add_quest\<close>: \<^verbatim>\<open>INSERT INTO quests (message_id, guild_id, channel_id, title,
  content)\<close>, with \<^verbatim>\<open>completed_users\<close> at its default \<^verbatim>\<open>'[]'\<close>; \<^verbatim>\<open>message_id\<close> is the
  table's primary key.
\<close>

definition insert_quest :: "database \<Rightarrow> int \<Rightarrow> int \<Rightarrow> int \<Rightarrow> string \<Rightarrow> string \<Rightarrow> error + database" where
  "insert_quest db mid gid cid ttl body =
     (if list_ex (\<lambda>q. q_message_id q = mid) (quests db) then Inl IntegrityError
      else Inr (db\<lparr>quests := quests db @
                  [\<lparr>q_message_id = mid, q_guild_id = gid, q_channel_id = cid, q_title = ttl,
                    q_content = body, q_completed_users = []\<rparr>]\<rparr>))"

text \<open>\<^verbatim>\<open>remove_quest\<close>: \<^verbatim>\<open>DELETE FROM quests WHERE message_id = ?\<close>\<close>

definition delete_quest :: "database \<Rightarrow> int \<Rightarrow> database" where
  "delete_quest db mid = db\<lparr>quests := filter (\<lambda>q. q_message_id q \<noteq> mid) (quests db)\<rparr>"

text \<open>The completion list stored for a quest.\<close>

definition stored_completed :: "quest_bot \<Rightarrow> int \<Rightarrow> int list option" where
  "stored_completed s mid =
     (case db_connection s of
        None \<Rightarrow> None
      | Some db \<Rightarrow> map_option q_completed_users (select_quest db mid))"

section \<open>Settings\<close>

text \<open>
  \<^verbatim>\<open>SELECT quest_ping_role_id, quest_channel_id, role_xp_assignments FROM settings WHERE
  guild_id = ?\<close> with \<^verbatim>\<open>fetchone()\<close>
\<close>

definition select_settings :: "database \<Rightarrow> int \<Rightarrow> settings_row option" where
  "select_settings db gid = find (\<lambda>r. st_guild_id r = gid) (settings db)"

text \<open>
  \<^verbatim>\<open>INSERT OR REPLACE INTO settings (guild_id, ...)\<close>: \<^verbatim>\<open>guild_id\<close> is the primary key, so
  the row of that guild, if any, is deleted and the new row inserted.
\<close>

definition insert_or_replace_settings :: "database \<Rightarrow> settings_row \<Rightarrow> database" where
  "insert_or_replace_settings db r =
     db\<lparr>settings := filter (\<lambda>x. st_guild_id x \<noteq> st_guild_id r) (settings db) @ [r]\<rparr>"

text \<open>
  \<^verbatim>\<open>save_settings(guild_id)\<close> writes the process-wide \<^verbatim>\<open>self.quest_ping_role_id\<close> and
  \<^verbatim>\<open>self.quest_channel_id\<close> and \<^verbatim>\<open>self.role_xp_assignments.get(guild_id, {})\<close> into the row of
  \<^verbatim>\<open>guild_id\<close>.
\<close>

definition save_settings :: "quest_bot \<Rightarrow> int \<Rightarrow> quest_bot" where
  "save_settings s gid =
     (case db_connection s of
        None \<Rightarrow> s
      | Some db \<Rightarrow>
          (let role_xp_json = (case role_xp_assignments s gid of None \<Rightarrow> Map.empty | Some m \<Rightarrow> m) in
           s\<lparr>db_connection := Some (insert_or_replace_settings db
                \<lparr>st_guild_id = gid, st_quest_ping_role_id = quest_ping_role_id s,
                 st_quest_channel_id = quest_channel_id s,
                 st_role_xp_assignments = role_xp_json\<rparr>)\<rparr>))"

text \<open>
  \<^verbatim>\<open>load_settings(guild_id)\<close>, called by \<^verbatim>\<open>on_ready\<close> for every guild in turn: a stored row
  overwrites the two process-wide attributes and sets \<^verbatim>\<open>role_xp_assignments[guild_id]\<close>.
\<close>

definition load_settings :: "quest_bot \<Rightarrow> int \<Rightarrow> quest_bot" where
  "load_settings s gid =
     (case db_connection s of
        None \<Rightarrow> s
      | Some db \<Rightarrow>
          (case select_settings db gid of
             None \<Rightarrow> s
           | Some r \<Rightarrow>
               s\<lparr>quest_ping_role_id := st_quest_ping_role_id r,
                 quest_channel_id := st_quest_channel_id r,
                 role_xp_assignments := (role_xp_assignments s)(gid \<mapsto> st_role_xp_assignments r)\<rparr>))"

section \<open>Python strings\<close>

text \<open>
  Role names are ASCII strings here. \<^verbatim>\<open>s.startswith(p)\<close>, \<^verbatim>\<open>sub in s\<close> and
  \<^verbatim>\<open>s.lower()\<close> on them.
\<close>

definition startswith :: "string \<Rightarrow> string \<Rightarrow> bool" where
  "startswith s p = (take (length p) s = p)"

fun contains :: "string \<Rightarrow> string \<Rightarrow> bool" where
  "contains [] sub = (sub = [])"
| "contains (c # cs) sub = (startswith (c # cs) sub \<or> contains cs sub)"

definition lower_char :: "char \<Rightarrow> char" where
  "lower_char c =
     (let n = (of_char c :: nat) in if 65 \<le> n \<and> n \<le> 90 then char_of (n + 32) else c)"

definition lower :: "string \<Rightarrow> string" where
  "lower s = map lower_char s"

text \<open>
  \<^verbatim>\<open>s.split(sep)\<close> for a non-empty \<^verbatim>\<open>sep\<close>: the pieces between the occurrences of
  \<^verbatim>\<open>sep\<close>, found from the left without overlap. \<open>skip\<close> counts the characters of a found
  separator still to pass over, \<open>cur\<close> is the current piece, reversed.
\<close>

fun split_loop :: "string \<Rightarrow> nat \<Rightarrow> string \<Rightarrow> string \<Rightarrow> string list" where
  "split_loop sep skip cur [] = [rev cur]"
| "split_loop sep skip cur (c # cs) =
     (if 0 < skip then split_loop sep (skip - 1) cur cs
      else if startswith (c # cs) sep then rev cur # split_loop sep (length sep - 1) [] cs
      else split_loop sep 0 (c # cur) cs)"

definition split :: "string \<Rightarrow> string \<Rightarrow> string list" where
  "split s sep = split_loop sep 0 [] s"

text \<open>
  \<^verbatim>\<open>int(s)\<close> on an ASCII string: the whitespace characters tab, line feed, vertical tab,
  form feed, carriage return and space stripped at both ends, an optional sign, then
  decimal digits in which single underscores may stand between digits; anything else is
  ValueError (None here).
\<close>

definition isspace :: "char \<Rightarrow> bool" where
  "isspace c = ((of_char c :: nat) \<in> set [9, 10, 11, 12, 13, 32])"

definition isdigit :: "char \<Rightarrow> bool" where
  "isdigit c = (48 \<le> (of_char c :: nat) \<and> (of_char c :: nat) \<le> 57)"

definition digit_value :: "char \<Rightarrow> nat" where
  "digit_value c = (of_char c :: nat) - 48"

definition strip :: "string \<Rightarrow> string" where
  "strip s = rev (dropWhile isspace (rev (dropWhile isspace s)))"

fun int_digits :: "bool \<Rightarrow> nat \<Rightarrow> string \<Rightarrow> nat option" where
  "int_digits after_underscore acc [] = (if after_underscore then None else Some acc)"
| "int_digits after_underscore acc (c # cs) =
     (if isdigit c then int_digits False (10 * acc + digit_value c) cs
      else if c = CHR ''_'' \<and> \<not> after_underscore then int_digits True acc cs
      else None)"

definition int_unsigned :: "string \<Rightarrow> nat option" where
  "int_unsigned s =
     (case s of
        [] \<Rightarrow> None
      | c # cs \<Rightarrow> if isdigit c then int_digits False (digit_value c) cs else None)"

definition py_int :: "string \<Rightarrow> int option" where
  "py_int s =
     (case strip s of
        [] \<Rightarrow> None
      | c # cs \<Rightarrow>
          if c = CHR ''-'' then map_option (\<lambda>n. - int n) (int_unsigned cs)
          else if c = CHR ''+'' then map_option int (int_unsigned cs)
          else map_option int (int_unsigned (c # cs)))"

text \<open>\<^verbatim>\<open>str(i)\<close> of an int, as in \<^verbatim>\<open>str(role.id)\<close> and \<^verbatim>\<open>f"Level {level}"\<close>.\<close>

function str_nat :: "nat \<Rightarrow> string" where
  "str_nat n =
     (if n < 10 then [char_of (48 + n)] else str_nat (n div 10) @ [char_of (48 + n mod 10)])"
  by pat_completeness auto
termination
  by (relation "measure id") auto

definition py_str :: "int \<Rightarrow> string" where
  "py_str i = (if i < 0 then CHR ''-'' # str_nat (nat (- i)) else str_nat (nat i))"

section \<open>The platform cache\<close>

text \<open>
  What the code reads of discord.py's cache: a role has an id and a name, a member an id and
  the roles held (\<^verbatim>\<open>member.roles\<close>), a guild an id, its roles (\<^verbatim>\<open>guild.roles\<close>) and its
  members; the client holds the guilds.
\<close>

record role =
  role_id :: int
  role_name :: string

record member =
  member_id :: int
  member_roles :: "role list"

record guild =
  guild_ident :: int
  guild_roles :: "role list"
  guild_members :: "member list"

type_synonym client = "guild list"

text \<open>\<^verbatim>\<open>bot.get_guild(guild_id)\<close> and \<^verbatim>\<open>guild.get_member(user_id)\<close>: the object or None.\<close>

definition get_guild :: "client \<Rightarrow> int \<Rightarrow> guild option" where
  "get_guild cache gid = find (\<lambda>g. guild_ident g = gid) cache"

definition get_member :: "guild \<Rightarrow> int \<Rightarrow> member option" where
  "get_member g uid = find (\<lambda>m. member_id m = uid) (guild_members g)"

text \<open>\<^verbatim>\<open>discord.utils.get(guild.roles, name=role_name)\<close>: the first role of that name or None.\<close>

definition utils_get :: "role list \<Rightarrow> string \<Rightarrow> role option" where
  "utils_get roles name = find (\<lambda>r. role_name r = name) roles"

section \<open>Total XP\<close>

text \<open>
  The first loop of \<^verbatim>\<open>calculate_total_user_xp\<close>: for a role whose name starts with
  \<^verbatim>\<open>"Level "\<close>, \<^verbatim>\<open>int(role.name.split("Level ")[1])\<close>, and for a number in 1..10
  \<^verbatim>\<open>max(level_role_xp, LEVEL_THRESHOLDS.get(level_num, 0))\<close>; the bare \<^verbatim>\<open>except: continue\<close>
  skips a role whose name does not parse.
\<close>

fun level_role_xp_loop :: "int \<Rightarrow> role list \<Rightarrow> int" where
  "level_role_xp_loop level_role_xp [] = level_role_xp"
| "level_role_xp_loop level_role_xp (r # roles) =
     (if startswith (role_name r) ''Level '' then
        (case split (role_name r) ''Level '' of
           _ # piece # _ \<Rightarrow>
             (case py_int piece of
                None \<Rightarrow> level_role_xp_loop level_role_xp roles
              | Some level_num \<Rightarrow>
                  if 1 \<le> level_num \<and> level_num \<le> 10
                  then level_role_xp_loop
                         (max level_role_xp
                            (case LEVEL_THRESHOLDS level_num of None \<Rightarrow> 0 | Some t \<Rightarrow> t)) roles
                  else level_role_xp_loop level_role_xp roles)
         | _ \<Rightarrow> level_role_xp_loop level_role_xp roles)
      else level_role_xp_loop level_role_xp roles)"

text \<open>
  The second loop: \<^verbatim>\<open>if guild_id in self.role_xp_assignments\<close>, every held role whose
  \<^verbatim>\<open>str(role.id)\<close> is a key of the guild's dict adds its value.
\<close>

fun custom_role_xp_loop :: "(string \<rightharpoonup> int) \<Rightarrow> int \<Rightarrow> role list \<Rightarrow> int" where
  "custom_role_xp_loop role_assignments custom_role_xp [] = custom_role_xp"
| "custom_role_xp_loop role_assignments custom_role_xp (r # roles) =
     (case role_assignments (py_str (role_id r)) of
        None \<Rightarrow> custom_role_xp_loop role_assignments custom_role_xp roles
      | Some v \<Rightarrow> custom_role_xp_loop role_assignments (custom_role_xp + v) roles)"

definition custom_role_xp :: "quest_bot \<Rightarrow> int \<Rightarrow> role list \<Rightarrow> int" where
  "custom_role_xp s gid roles =
     (case role_xp_assignments s gid of
        None \<Rightarrow> 0
      | Some role_assignments \<Rightarrow> custom_role_xp_loop role_assignments 0 roles)"

text \<open>
  The third loop: \<^verbatim>\<open>if "badge" in role_name_lower: auto_role_xp += 5\<close>,
  \<^verbatim>\<open>elif "streak" in role_name_lower: auto_role_xp += 5\<close>.
\<close>

fun auto_role_xp_loop :: "int \<Rightarrow> role list \<Rightarrow> int" where
  "auto_role_xp_loop auto_role_xp [] = auto_role_xp"
| "auto_role_xp_loop auto_role_xp (r # roles) =
     (let role_name_lower = lower (role_name r) in
      if contains role_name_lower ''badge'' then auto_role_xp_loop (auto_role_xp + 5) roles
      else if contains role_name_lower ''streak'' then auto_role_xp_loop (auto_role_xp + 5) roles
      else auto_role_xp_loop auto_role_xp roles)"

text \<open>
  The body of the \<^verbatim>\<open>try\<close> of \<^verbatim>\<open>calculate_total_user_xp\<close>: the database XP when the guild or
  the member is not in the cache, else the maximum of the database XP and the sum of the
  three role amounts.
\<close>

definition calculate_total_user_xp_try :: "client \<Rightarrow> quest_bot \<Rightarrow> int \<Rightarrow> int \<Rightarrow> error + (quest_bot \<times> int)" where
  "calculate_total_user_xp_try cache s uid gid =
     (case get_guild cache gid of
        None \<Rightarrow>
          (case get_user_data s uid gid of Inl e \<Rightarrow> Inl e | Inr (s1, db_xp, _) \<Rightarrow> Inr (s1, db_xp))
      | Some g \<Rightarrow>
          (case get_member g uid of
             None \<Rightarrow>
               (case get_user_data s uid gid of Inl e \<Rightarrow> Inl e | Inr (s1, db_xp, _) \<Rightarrow> Inr (s1, db_xp))
           | Some m \<Rightarrow>
               (case get_user_data s uid gid of
                  Inl e \<Rightarrow> Inl e
                | Inr (s1, base_xp, _) \<Rightarrow>
                    (let level_role_xp = level_role_xp_loop 0 (member_roles m);
                         custom_xp = custom_role_xp s1 gid (member_roles m);
                         auto_role_xp = auto_role_xp_loop 0 (member_roles m)
                     in Inr (s1, max base_xp (level_role_xp + custom_xp + auto_role_xp))))))"

text \<open>
  \<^verbatim>\<open>calculate_total_user_xp\<close>: an exception of the body is caught by \<^verbatim>\<open>except Exception\<close>,
  whose handler calls \<^verbatim>\<open>get_user_data\<close> once more and returns its XP; an exception of that
  call leaves the function.
\<close>

definition calculate_total_user_xp :: "client \<Rightarrow> quest_bot \<Rightarrow> int \<Rightarrow> int \<Rightarrow> error + (quest_bot \<times> int)" where
  "calculate_total_user_xp cache s uid gid =
     (case calculate_total_user_xp_try cache s uid gid of
        Inr res \<Rightarrow> Inr res
      | Inl _ \<Rightarrow>
          (case get_user_data s uid gid of Inl e \<Rightarrow> Inl e | Inr (s1, db_xp, _) \<Rightarrow> Inr (s1, db_xp)))"

section \<open>Settings commands\<close>

text \<open>
  The slash commands \<^verbatim>\<open>questping\<close>, \<^verbatim>\<open>questchannel\<close> and \<^verbatim>\<open>assignrolexp\<close>; the flag is
  the permission test that makes them return at once. Each assigns the attribute and calls
  \<^verbatim>\<open>save_settings(interaction.guild.id)\<close>.
\<close>

definition slash_set_quest_ping :: "quest_bot \<Rightarrow> bool \<Rightarrow> int \<Rightarrow> int \<Rightarrow> quest_bot" where
  "slash_set_quest_ping s manage_roles gid rid =
     (if \<not> manage_roles then s
      else save_settings (s\<lparr>quest_ping_role_id := Some rid\<rparr>) gid)"

definition slash_set_quest_channel :: "quest_bot \<Rightarrow> bool \<Rightarrow> int \<Rightarrow> int \<Rightarrow> quest_bot" where
  "slash_set_quest_channel s manage_channels gid cid =
     (if \<not> manage_channels then s
      else save_settings (s\<lparr>quest_channel_id := Some cid\<rparr>) gid)"

definition slash_assign_role_xp :: "quest_bot \<Rightarrow> bool \<Rightarrow> int \<Rightarrow> int \<Rightarrow> int \<Rightarrow> quest_bot" where
  "slash_assign_role_xp s manage_roles gid rid xp_amount =
     (if \<not> manage_roles then s
      else
        (let assignments = (case role_xp_assignments s gid of None \<Rightarrow> Map.empty | Some m \<Rightarrow> m) in
         save_settings
           (s\<lparr>role_xp_assignments :=
                (role_xp_assignments s)(gid \<mapsto> assignments(py_str rid \<mapsto> xp_amount))\<rparr>) gid))"

text \<open>
  The settings a handler serving guild \<open>gid\<close> works with: \<^verbatim>\<open>add_quest\<close> reads
  \<^verbatim>\<open>quest_bot.quest_ping_role_id\<close> and \<^verbatim>\<open>quest_bot.quest_channel_id\<close> whatever
  \<^verbatim>\<open>ctx.guild\<close> is, \<^verbatim>\<open>on_member_update\<close> and \<^verbatim>\<open>calculate_total_user_xp\<close> read
  \<^verbatim>\<open>role_xp_assignments[guild_id]\<close>.
\<close>

definition cached_ping_role :: "quest_bot \<Rightarrow> int \<Rightarrow> int option" where
  "cached_ping_role s gid = quest_ping_role_id s"

definition cached_channel :: "quest_bot \<Rightarrow> int \<Rightarrow> int option" where
  "cached_channel s gid = quest_channel_id s"

definition cached_role_xp :: "quest_bot \<Rightarrow> int \<Rightarrow> (string \<rightharpoonup> int) option" where
  "cached_role_xp s gid = role_xp_assignments s gid"

text \<open>
  \<^verbatim>\<open>ctx.guild.get_role(role_id)\<close>, and the role \<^verbatim>\<open>add_quest\<close> of main.py pings after
  announcing a quest in guild \<open>g\<close>: \<^verbatim>\<open>if quest_bot.quest_ping_role_id: role =
  ctx.guild.get_role(quest_bot.quest_ping_role_id)\<close>, and a ping \<^verbatim>\<open>if role\<close>.
\<close>

definition get_role :: "guild \<Rightarrow> int \<Rightarrow> role option" where
  "get_role g rid = find (\<lambda>r. role_id r = rid) (guild_roles g)"

definition add_quest_ping_role :: "quest_bot \<Rightarrow> guild \<Rightarrow> role option" where
  "add_quest_ping_role s g =
     (case quest_ping_role_id s of
        None \<Rightarrow> None
      | Some rid \<Rightarrow> if rid = 0 then None else get_role g rid)"

text \<open>The settings row stored for a guild.\<close>

definition stored_settings :: "quest_bot \<Rightarrow> int \<Rightarrow> settings_row option" where
  "stored_settings s gid =
     (case db_connection s of None \<Rightarrow> None | Some db \<Rightarrow> select_settings db gid)"

section \<open>Role reconciliation\<close>

text \<open>
  An awaited platform call either completes or raises. The list gives, in order, what the
  calls of a run do; past its end every call completes.
\<close>

datatype outcome = Done | Raise error

fun next_outcome :: "outcome list \<Rightarrow> outcome \<times> outcome list" where
  "next_outcome [] = (Done, [])"
| "next_outcome (x # xs) = (x, xs)"

text \<open>
  The effect of a completed call on the guild: \<^verbatim>\<open>member.remove_roles(role)\<close>,
  \<^verbatim>\<open>member.add_roles(role)\<close> and \<^verbatim>\<open>guild.create_role(name=...)\<close>. Roles compare by id. A
  created role gets an id not in use; its colour is not modelled.
\<close>

definition remove_roles :: "guild \<Rightarrow> int \<Rightarrow> role \<Rightarrow> guild" where
  "remove_roles g uid r =
     g\<lparr>guild_members :=
         map (\<lambda>m. if member_id m = uid
                   then m\<lparr>member_roles := filter (\<lambda>x. role_id x \<noteq> role_id r) (member_roles m)\<rparr>
                   else m)
             (guild_members g)\<rparr>"

definition add_roles :: "guild \<Rightarrow> int \<Rightarrow> role \<Rightarrow> guild" where
  "add_roles g uid r =
     g\<lparr>guild_members :=
         map (\<lambda>m. if member_id m = uid \<and> \<not> list_ex (\<lambda>x. role_id x = role_id r) (member_roles m)
                   then m\<lparr>member_roles := member_roles m @ [r]\<rparr>
                   else m)
             (guild_members g)\<rparr>"

definition create_role :: "guild \<Rightarrow> string \<Rightarrow> guild" where
  "create_role g name =
     g\<lparr>guild_roles := guild_roles g @
         [\<lparr>role_id = 1 + foldl max 0 (map role_id (guild_roles g)), role_name = name\<rparr>]\<rparr>"

text \<open>
  One awaited call: the guild after it, or the exception and the guild as it was; and the
  outcomes left.
\<close>

definition await_call :: "outcome list \<Rightarrow> guild \<Rightarrow> guild \<Rightarrow> error option \<times> guild \<times> outcome list" where
  "await_call os g g' =
     (case next_outcome os of
        (Done, os') \<Rightarrow> (None, g', os')
      | (Raise e, os') \<Rightarrow> (Some e, g, os'))"

text \<open>
  \<^verbatim>\<open>create_level_roles\<close>: the loop over \<^verbatim>\<open>range(1, 11)\<close> creates each missing
  \<^verbatim>\<open>"Level {level}"\<close> role; the \<^verbatim>\<open>try\<close> is around the loop, so the first exception ends it,
  and both \<^verbatim>\<open>except\<close> clauses only print.
\<close>

fun create_level_roles_loop :: "int list \<Rightarrow> guild \<Rightarrow> outcome list \<Rightarrow> error option \<times> guild \<times> outcome list" where
  "create_level_roles_loop [] g os = (None, g, os)"
| "create_level_roles_loop (level # rest) g os =
     (case utils_get (guild_roles g) (''Level '' @ py_str level) of
        Some existing_role \<Rightarrow> create_level_roles_loop rest g os
      | None \<Rightarrow>
          (case await_call os g (create_role g (''Level '' @ py_str level)) of
             (Some e, g1, os1) \<Rightarrow> (Some e, g1, os1)
           | (None, g1, os1) \<Rightarrow> create_level_roles_loop rest g1 os1))"

definition create_level_roles :: "guild \<Rightarrow> outcome list \<Rightarrow> guild \<times> outcome list" where
  "create_level_roles g os =
     (case create_level_roles_loop [1, 2, 3, 4, 5, 6, 7, 8, 9, 10] g os of
        (_, g1, os1) \<Rightarrow> (g1, os1))"

text \<open>
  The body of the \<^verbatim>\<open>try\<close> of \<^verbatim>\<open>update_user_level_role\<close> once the guild and the member are
  found: remove the old level role if the member holds it, then add the new one, creating
  the level roles first when the guild has none of that name.
\<close>

definition add_new_level_role :: "guild \<Rightarrow> outcome list \<Rightarrow> int \<Rightarrow> int \<Rightarrow> error option \<times> guild \<times> outcome list" where
  "add_new_level_role g os uid new_level =
     (case utils_get (guild_roles g) (''Level '' @ py_str new_level) of
        Some new_role \<Rightarrow> await_call os g (add_roles g uid new_role)
      | None \<Rightarrow>
          (case create_level_roles g os of
             (g1, os1) \<Rightarrow>
               (case utils_get (guild_roles g1) (''Level '' @ py_str new_level) of
                  Some new_role \<Rightarrow> await_call os1 g1 (add_roles g1 uid new_role)
                | None \<Rightarrow> (None, g1, os1))))"

definition update_user_level_role_try :: "guild \<Rightarrow> member \<Rightarrow> outcome list \<Rightarrow> int \<Rightarrow> int \<Rightarrow> int \<Rightarrow> error option \<times> guild \<times> outcome list" where
  "update_user_level_role_try g m os uid old_level new_level =
     (case utils_get (guild_roles g) (''Level '' @ py_str old_level) of
        None \<Rightarrow> add_new_level_role g os uid new_level
      | Some old_role \<Rightarrow>
          if list_ex (\<lambda>x. role_id x = role_id old_role) (member_roles m) then
            (case await_call os g (remove_roles g uid old_role) of
               (Some e, g1, os1) \<Rightarrow> (Some e, g1, os1)
             | (None, g1, os1) \<Rightarrow> add_new_level_role g1 os1 uid new_level)
          else add_new_level_role g os uid new_level)"

text \<open>
  \<^verbatim>\<open>update_user_level_role\<close>: returns at once when the guild or the member is not in the
  cache; \<^verbatim>\<open>except discord.Forbidden\<close> and \<^verbatim>\<open>except Exception\<close> print and fall through to the
  end of the coroutine. The changed guild replaces the one of its id in the cache.
\<close>

definition update_user_level_role :: "client \<Rightarrow> outcome list \<Rightarrow> int \<Rightarrow> int \<Rightarrow> int \<Rightarrow> int \<Rightarrow> error + (client \<times> outcome list)" where
  "update_user_level_role cache os uid gid old_level new_level =
     (case get_guild cache gid of
        None \<Rightarrow> Inr (cache, os)
      | Some g \<Rightarrow>
          (case get_member g uid of
             None \<Rightarrow> Inr (cache, os)
           | Some m \<Rightarrow>
               (case update_user_level_role_try g m os uid old_level new_level of
                  (None, g1, os1) \<Rightarrow>
                    Inr (map (\<lambda>x. if guild_ident x = gid then g1 else x) cache, os1)
                | (Some Forbidden, g1, os1) \<Rightarrow>
                    Inr (map (\<lambda>x. if guild_ident x = gid then g1 else x) cache, os1)
                | (Some _, g1, os1) \<Rightarrow>
                    Inr (map (\<lambda>x. if guild_ident x = gid then g1 else x) cache, os1))))"

section \<open>The event loop\<close>

text \<open>
  The loop runs the oldest task of its queue: the coroutine
  \<^verbatim>\<open>update_user_level_role\<close> with the arguments it was created with. An exception that left
  the coroutine would end the task.
\<close>

definition run_next_task :: "quest_bot \<Rightarrow> client \<Rightarrow> outcome list \<Rightarrow> error + (quest_bot \<times> client \<times> outcome list)" where
  "run_next_task s cache os =
     (case tasks s of
        [] \<Rightarrow> Inr (s, cache, os)
      | t # ts \<Rightarrow>
          (case update_user_level_role cache os (task_user_id t) (task_guild_id t)
                  (task_old_level t) (task_new_level t) of
             Inl e \<Rightarrow> Inl e
           | Inr (cache1, os1) \<Rightarrow> Inr (s\<lparr>tasks := ts\<rparr>, cache1, os1)))"

text \<open>
  Handlers run on one thread. \<^verbatim>\<open>update_user_xp\<close> is a plain \<^verbatim>\<open>def\<close> with no \<^verbatim>\<open>await\<close> in
  it, and each handler that calls it (\<^verbatim>\<open>on_reaction_add\<close>, \<^verbatim>\<open>on_member_update\<close>,
  \<^verbatim>\<open>add_xp\<close>, \<^verbatim>\<open>remove_xp\<close> and the slash commands) awaits only after the call has
  returned. So whatever way the loop switches between handlers at their awaits, the calls
  of \<^verbatim>\<open>update_user_xp\<close> run whole, one after the other, in some order: the list, each entry
  \<open>(user_id, guild_id, xp_change)\<close>. An exception ends the handler that made the call and
  the loop goes on from the state the call left.
\<close>

fun run_adjusts :: "quest_bot \<Rightarrow> (int \<times> int \<times> int) list \<Rightarrow> quest_bot" where
  "run_adjusts s [] = s"
| "run_adjusts s ((uid, gid, xp_change) # calls) =
     (case update_user_xp s uid gid xp_change of
        Inl (e, s1) \<Rightarrow> run_adjusts s1 calls
      | Inr (s1, _) \<Rightarrow> run_adjusts s1 calls)"

fun run_adjusts_bot4 :: "quest_bot \<Rightarrow> (int \<times> int \<times> int) list \<Rightarrow> quest_bot" where
  "run_adjusts_bot4 s [] = s"
| "run_adjusts_bot4 s ((uid, gid, xp_change) # calls) =
     (case update_user_xp_bot4 s uid gid xp_change of
        Inl (e, s1) \<Rightarrow> run_adjusts_bot4 s1 calls
      | Inr (s1, _) \<Rightarrow> run_adjusts_bot4 s1 calls)"

text \<open>The XP that the calls of a list would give from \<open>x\<close>, each clamped at 0 in turn.\<close>

fun apply_deltas :: "int \<Rightarrow> int list \<Rightarrow> int" where
  "apply_deltas x [] = x"
| "apply_deltas x (d # ds) = apply_deltas (max 0 (x + d)) ds"

text \<open>No delta of the list takes the XP, started at \<open>x\<close>, out of SQLite's range.\<close>

fun deltas_fit :: "int \<Rightarrow> int list \<Rightarrow> bool" where
  "deltas_fit x [] = True"
| "deltas_fit x (d # ds) = (sqlite_integer (max 0 (x + d)) \<and> deltas_fit (max 0 (x + d)) ds)"

section \<open>Reachable states and the ledger invariant\<close>

text \<open>
  The states the bot reaches from a new database by the modelled operations: reads and
  adjustments of the ledger (the staff commands and \<^verbatim>\<open>on_member_update\<close> are calls of
  \<^verbatim>\<open>update_user_xp\<close>), reactions, total-XP queries, quest creation and removal, the
  settings operations, and the running of a queued task; an operation that raises leaves
  the state it had reached.
\<close>

inductive reachable :: "quest_bot \<Rightarrow> bool" where
  start: "reachable init_bot"
| read: "reachable s \<Longrightarrow> get_user_data s uid gid = Inr (s', x, l) \<Longrightarrow> reachable s'"
| adjust: "reachable s \<Longrightarrow> update_user_xp s uid gid d = Inr (s', x, l) \<Longrightarrow> reachable s'"
| adjust_raises: "reachable s \<Longrightarrow> update_user_xp s uid gid d = Inl (e, s') \<Longrightarrow> reachable s'"
| adjust_bot4: "reachable s \<Longrightarrow> update_user_xp_bot4 s uid gid d = Inr (s', x, l) \<Longrightarrow> reachable s'"
| adjust_bot4_raises: "reachable s \<Longrightarrow> update_user_xp_bot4 s uid gid d = Inl (e, s') \<Longrightarrow> reachable s'"
| reaction: "reachable s \<Longrightarrow> on_reaction_add s ev = Inr (s', msg) \<Longrightarrow> reachable s'"
| reaction_raises: "reachable s \<Longrightarrow> on_reaction_add s ev = Inl (e, s') \<Longrightarrow> reachable s'"
| reaction_bot4: "reachable s \<Longrightarrow> on_reaction_add_bot4 s ev = Inr (s', msg) \<Longrightarrow> reachable s'"
| reaction_bot4_raises: "reachable s \<Longrightarrow> on_reaction_add_bot4 s ev = Inl (e, s') \<Longrightarrow> reachable s'"
| total: "reachable s \<Longrightarrow> calculate_total_user_xp cache s uid gid = Inr (s', x) \<Longrightarrow> reachable s'"
| add_quest: "reachable s \<Longrightarrow> db_connection s = Some db \<Longrightarrow>
     insert_quest db mid gid cid ttl body = Inr db' \<Longrightarrow> reachable (s\<lparr>db_connection := Some db'\<rparr>)"
| remove_quest: "reachable s \<Longrightarrow> db_connection s = Some db \<Longrightarrow>
     reachable (s\<lparr>db_connection := Some (delete_quest db mid)\<rparr>)"
| load: "reachable s \<Longrightarrow> reachable (load_settings s gid)"
| set_ping: "reachable s \<Longrightarrow> reachable (slash_set_quest_ping s allowed gid rid)"
| set_channel: "reachable s \<Longrightarrow> reachable (slash_set_quest_channel s allowed gid cid)"
| assign_role_xp: "reachable s \<Longrightarrow> reachable (slash_assign_role_xp s allowed gid rid amount)"
| run_task: "reachable s \<Longrightarrow> run_next_task s cache os = Inr (s', cache', os') \<Longrightarrow> reachable s'"

text \<open>Every row of the users table holds the level that \<^verbatim>\<open>calculate_level\<close> gives for its XP.\<close>

definition ledger_inv :: "quest_bot \<Rightarrow> bool" where
  "ledger_inv s =
     (case db_connection s of
        None \<Rightarrow> True
      | Some db \<Rightarrow> list_all (\<lambda>r. calculate_level (row_xp r) = Inr (row_level r)) (users db))"

section \<open>The spec's formula for the automatic role XP\<close>

text \<open>
  From the spec's words, for comparison with \<open>auto_role_xp_loop\<close>: 5 times the number of
  held roles whose lower-cased name contains "badge" plus 5 times the number of held roles
  whose lower-cased name contains "streak".
\<close>

definition auto_role_xp_spec :: "role list \<Rightarrow> int" where
  "auto_role_xp_spec roles =
     5 * int (length (filter (\<lambda>r. contains (lower (role_name r)) ''badge'') roles))
     + 5 * int (length (filter (\<lambda>r. contains (lower (role_name r)) ''streak'') roles))"

section \<open>Example states\<close>

text \<open>A bot whose ledger holds one row: member 7 of guild 1 with 50 XP at level 1.\<close>

definition bot_xp50 :: quest_bot where
  "bot_xp50 =
     \<lparr>db_connection = Some \<lparr>users = [\<lparr>row_user_id = 7, row_guild_id = 1, row_xp = 50, row_level = 1\<rparr>],
                              quests = [], settings = []\<rparr>,
      quest_ping_role_id = None, quest_channel_id = None,
      role_xp_assignments = Map.empty, tasks = []\<rparr>"

text \<open>
  The same ledger, and a quest announced in guild 2 (message 100) that nobody has completed.
\<close>

definition bot_quest :: quest_bot where
  "bot_quest =
     \<lparr>db_connection = Some \<lparr>users = [\<lparr>row_user_id = 7, row_guild_id = 1, row_xp = 50, row_level = 1\<rparr>],
                              quests = [\<lparr>q_message_id = 100, q_guild_id = 2, q_channel_id = 5,
                                         q_title = ''Q'', q_content = ''do it'',
                                         q_completed_users = []\<rparr>],
                              settings = []\<rparr>,
      quest_ping_role_id = None, quest_channel_id = None,
      role_xp_assignments = Map.empty, tasks = []\<rparr>"

text \<open>Member 7 reacting with the check mark to message 100 in guild 2.\<close>

definition react_7 :: reaction_event where
  "react_7 =
     \<lparr>ev_user_bot = False, ev_user_id = 7, ev_emoji = check_mark, ev_message_id = 100,
      ev_guild_id = 2\<rparr>"

text \<open>
  A bot started on a database in which guild 2 has saved ping role 20 and channel 200:
  \<^verbatim>\<open>on_ready\<close> has called \<^verbatim>\<open>load_settings(2)\<close>.
\<close>

definition bot_guild2 :: quest_bot where
  "bot_guild2 =
     load_settings
       \<lparr>db_connection = Some \<lparr>users = [], quests = [],
                                settings = [\<lparr>st_guild_id = 2, st_quest_ping_role_id = Some 20,
                                             st_quest_channel_id = Some 200,
                                             st_role_xp_assignments = Map.empty\<rparr>]\<rparr>,
        quest_ping_role_id = None, quest_channel_id = None,
        role_xp_assignments = Map.empty, tasks = []\<rparr> 2"

text \<open>The state after \<^verbatim>\<open>update_user_xp(7, 1, 120)\<close> on a new database.\<close>

definition bot_xp120 :: quest_bot where
  "bot_xp120 =
     \<lparr>db_connection = Some \<lparr>users = [\<lparr>row_user_id = 7, row_guild_id = 1, row_xp = 120, row_level = 2\<rparr>],
                              quests = [], settings = []\<rparr>,
      quest_ping_role_id = None, quest_channel_id = None,
      role_xp_assignments = Map.empty, tasks = []\<rparr>"

text \<open>
  Guild 1 as the cache has it: member 7 holds the default role, the role 30 named
  \<^verbatim>\<open>VIP\<close> and the role 31 named \<^verbatim>\<open>badge-collector\<close>. The bot has role 30 assigned 30 XP in
  guild 1, and member 7 stored with 0 XP.
\<close>

definition member_badge :: member where
  "member_badge =
     \<lparr>member_id = 7,
      member_roles = [\<lparr>role_id = 1, role_name = ''@everyone''\<rparr>, \<lparr>role_id = 30, role_name = ''VIP''\<rparr>,
                      \<lparr>role_id = 31, role_name = ''badge-collector''\<rparr>]\<rparr>"

definition guild_badge :: guild where
  "guild_badge =
     \<lparr>guild_ident = 1,
      guild_roles = [\<lparr>role_id = 1, role_name = ''@everyone''\<rparr>, \<lparr>role_id = 30, role_name = ''VIP''\<rparr>,
                     \<lparr>role_id = 31, role_name = ''badge-collector''\<rparr>],
      guild_members = [member_badge]\<rparr>"

definition cache_badge :: client where
  "cache_badge = [guild_badge]"

definition bot_badge :: quest_bot where
  "bot_badge =
     \<lparr>db_connection = Some \<lparr>users = [\<lparr>row_user_id = 7, row_guild_id = 1, row_xp = 0, row_level = 1\<rparr>],
                              quests = [], settings = []\<rparr>,
      quest_ping_role_id = None, quest_channel_id = None,
      role_xp_assignments = [1 \<mapsto> [''30'' \<mapsto> 30]], tasks = []\<rparr>"

text \<open>Guild 1 with member 7 holding the \<^verbatim>\<open>Level 1\<close> role; the guild has no \<^verbatim>\<open>Level 2\<close> role.\<close>

definition cache_level1 :: client where
  "cache_level1 =
     [\<lparr>guild_ident = 1,
       guild_roles = [\<lparr>role_id = 1, role_name = ''@everyone''\<rparr>, \<lparr>role_id = 2, role_name = ''Level 1''\<rparr>],
       guild_members =
         [\<lparr>member_id = 7,
           member_roles = [\<lparr>role_id = 1, role_name = ''@everyone''\<rparr>,
                           \<lparr>role_id = 2, role_name = ''Level 1''\<rparr>]\<rparr>]\<rparr>]"

text \<open>Guild 2 as the cache has it: its role 20 is named \<^verbatim>\<open>Questers\<close>; it has no member listed.\<close>

definition guild_2 :: guild where
  "guild_2 =
     \<lparr>guild_ident = 2,
      guild_roles = [\<lparr>role_id = 2, role_name = ''@everyone''\<rparr>, \<lparr>role_id = 20, role_name = ''Questers''\<rparr>],
      guild_members = []\<rparr>"

text \<open>Guild 2 with member 7 in it, holding the default role only.\<close>

definition guild_2_member7 :: guild where
  "guild_2_member7 =
     \<lparr>guild_ident = 2,
      guild_roles = [\<lparr>role_id = 2, role_name = ''@everyone''\<rparr>, \<lparr>role_id = 20, role_name = ''Questers''\<rparr>],
      guild_members = [\<lparr>member_id = 7, member_roles = [\<lparr>role_id = 2, role_name = ''@everyone''\<rparr>]\<rparr>]\<rparr>"

section \<open>Level table: properties\<close>

lemma calculate_level_unfold:
  "calculate_level xp =
     (if 11700 \<le> xp then Inr 10 else if 9200 \<le> xp then Inr 9
      else if 7000 \<le> xp then Inr 8 else if 5100 \<le> xp then Inr 7
      else if 3500 \<le> xp then Inr 6 else if 2200 \<le> xp then Inr 5
      else if 1200 \<le> xp then Inr 4 else if 500 \<le> xp then Inr 3
      else if 100 \<le> xp then Inr 2 else Inr 1)"
  by (simp add: calculate_level_def LEVEL_THRESHOLDS_def)

lemma LEVEL_THRESHOLDS_cases:
  "LEVEL_THRESHOLDS n = Some t \<longleftrightarrow>
     (n = 1 \<and> t = 0) \<or> (n = 2 \<and> t = 100) \<or> (n = 3 \<and> t = 500) \<or> (n = 4 \<and> t = 1200)
     \<or> (n = 5 \<and> t = 2200) \<or> (n = 6 \<and> t = 3500) \<or> (n = 7 \<and> t = 5100)
     \<or> (n = 8 \<and> t = 7000) \<or> (n = 9 \<and> t = 9200) \<or> (n = 10 \<and> t = 11700)"
  by (auto simp: LEVEL_THRESHOLDS_def)

lemma calculate_level_total: "\<exists>l. calculate_level xp = Inr l \<and> 1 \<le> l \<and> l \<le> 10"
  by (simp add: calculate_level_unfold)

lemma calculate_level_threshold:
  "calculate_level xp = Inr l \<Longrightarrow> 0 \<le> xp \<Longrightarrow> \<exists>t. LEVEL_THRESHOLDS l = Some t \<and> t \<le> xp"
  by (auto simp: calculate_level_unfold LEVEL_THRESHOLDS_cases split: if_splits)

lemma calculate_level_greatest:
  "calculate_level xp = Inr l \<Longrightarrow> LEVEL_THRESHOLDS n = Some t \<Longrightarrow> t \<le> xp \<Longrightarrow> n \<le> l"
  by (auto simp: calculate_level_unfold LEVEL_THRESHOLDS_cases split: if_splits)

lemma calculate_level_mono:
  "x \<le> y \<Longrightarrow> calculate_level x = Inr a \<Longrightarrow> calculate_level y = Inr b \<Longrightarrow> a \<le> b"
  by (auto simp: calculate_level_unfold split: if_splits)

lemma calculate_level_of_threshold:
  "LEVEL_THRESHOLDS n = Some t \<Longrightarrow> calculate_level t = Inr n"
  by (auto simp: calculate_level_unfold LEVEL_THRESHOLDS_cases)

lemma LEVEL_THRESHOLDS_defined:
  assumes "1 \<le> n" and "n \<le> 10"
  shows "\<exists>t. LEVEL_THRESHOLDS n = Some t"
proof (rule ccontr)
  assume "\<not> (\<exists>t. LEVEL_THRESHOLDS n = Some t)"
  then have "LEVEL_THRESHOLDS n = None"
    by simp
  then have "n < 1 \<or> 10 < n"
    by (simp add: LEVEL_THRESHOLDS_def split: if_splits) arith
  with assms show False
    by simp
qed

text \<open>
  C4. For every non-negative xp, \<open>calculate_level xp\<close> returns the greatest level in 1..10
  whose threshold is at most xp, and at least level 1; it is monotonic non-decreasing in
  xp; and the level of the threshold of tier n is n, for every n in 1..10.
\<close>

theorem calculate_level_spec:
  "(0 \<le> xp \<longrightarrow>
      (\<exists>l t. calculate_level xp = Inr l \<and> 1 \<le> l \<and> l \<le> 10 \<and>
             LEVEL_THRESHOLDS l = Some t \<and> t \<le> xp \<and>
             (\<forall>n u. 1 \<le> n \<and> n \<le> 10 \<and> LEVEL_THRESHOLDS n = Some u \<and> u \<le> xp \<longrightarrow> n \<le> l)))
   \<and> (0 \<le> x \<and> x \<le> y \<longrightarrow>
      (\<exists>a b. calculate_level x = Inr a \<and> calculate_level y = Inr b \<and> a \<le> b))
   \<and> (1 \<le> n \<and> n \<le> 10 \<longrightarrow>
      (\<exists>t. LEVEL_THRESHOLDS n = Some t \<and> calculate_level t = Inr n))"
proof (intro conjI impI)
  assume nonneg: "0 \<le> xp"
  obtain l where l: "calculate_level xp = Inr l" "1 \<le> l" "l \<le> 10"
    using calculate_level_total by blast
  obtain t where t: "LEVEL_THRESHOLDS l = Some t" "t \<le> xp"
    using calculate_level_threshold[OF l(1) nonneg] by blast
  have "\<forall>n u. 1 \<le> n \<and> n \<le> 10 \<and> LEVEL_THRESHOLDS n = Some u \<and> u \<le> xp \<longrightarrow> n \<le> l"
    using calculate_level_greatest[OF l(1)] by blast
  with l t show "\<exists>l t. calculate_level xp = Inr l \<and> 1 \<le> l \<and> l \<le> 10 \<and>
             LEVEL_THRESHOLDS l = Some t \<and> t \<le> xp \<and>
             (\<forall>n u. 1 \<le> n \<and> n \<le> 10 \<and> LEVEL_THRESHOLDS n = Some u \<and> u \<le> xp \<longrightarrow> n \<le> l)"
    by blast
next
  assume xy: "0 \<le> x \<and> x \<le> y"
  obtain a where a: "calculate_level x = Inr a"
    using calculate_level_total by blast
  obtain b where b: "calculate_level y = Inr b"
    using calculate_level_total by blast
  from xy a b have "a \<le> b"
    using calculate_level_mono by blast
  with a b show "\<exists>a b. calculate_level x = Inr a \<and> calculate_level y = Inr b \<and> a \<le> b"
    by blast
next
  assume n: "1 \<le> n \<and> n \<le> 10"
  then obtain t where t: "LEVEL_THRESHOLDS n = Some t"
    using LEVEL_THRESHOLDS_defined by blast
  then show "\<exists>t. LEVEL_THRESHOLDS n = Some t \<and> calculate_level t = Inr n"
    using calculate_level_of_threshold by blast
qed

theorem calculate_level_spec_witness:
  "(0::int) \<le> 120 \<and> calculate_level 120 = Inr 2 \<and> LEVEL_THRESHOLDS 2 = Some 100
   \<and> (0::int) \<le> 50 \<and> (50::int) \<le> 600 \<and> calculate_level 50 = Inr 1 \<and> calculate_level 600 = Inr 3
   \<and> (1::int) \<le> 3 \<and> (3::int) \<le> 10 \<and> LEVEL_THRESHOLDS 3 = Some 500 \<and> calculate_level 500 = Inr 3"
  using calculate_level_spec[of 120 50 600 3]
  by (simp add: calculate_level_unfold LEVEL_THRESHOLDS_def)

section \<open>XP ledger: properties\<close>

lemma calculate_level_no_error [simp]: "calculate_level xp \<noteq> Inl e"
  by (simp add: calculate_level_unfold)

lemma select_user_update_user_same:
  "select_user (update_user db nx nl uid gid) uid gid =
     map_option (\<lambda>r. r\<lparr>row_xp := nx, row_level := nl\<rparr>) (select_user db uid gid)"
proof -
  have "find (\<lambda>r. row_user_id r = uid \<and> row_guild_id r = gid)
          (map (\<lambda>r. if row_user_id r = uid \<and> row_guild_id r = gid
                    then r\<lparr>row_xp := nx, row_level := nl\<rparr> else r) xs) =
        map_option (\<lambda>r. r\<lparr>row_xp := nx, row_level := nl\<rparr>)
          (find (\<lambda>r. row_user_id r = uid \<and> row_guild_id r = gid) xs)" for xs :: "user_row list"
    by (induction xs) auto
  then show ?thesis
    by (simp add: select_user_def update_user_def)
qed

lemma select_user_update_user_other:
  assumes "uid' \<noteq> uid \<or> gid' \<noteq> gid"
  shows "select_user (update_user db nx nl uid gid) uid' gid' = select_user db uid' gid'"
proof -
  have "find (\<lambda>r. row_user_id r = uid' \<and> row_guild_id r = gid')
          (map (\<lambda>r. if row_user_id r = uid \<and> row_guild_id r = gid
                    then r\<lparr>row_xp := nx, row_level := nl\<rparr> else r) xs) =
        find (\<lambda>r. row_user_id r = uid' \<and> row_guild_id r = gid') xs" for xs :: "user_row list"
    using assms by (induction xs) auto
  then show ?thesis
    by (simp add: select_user_def update_user_def)
qed

lemma get_user_data_stored:
  "db_connection s = Some db \<Longrightarrow> select_user db uid gid = Some r \<Longrightarrow>
   get_user_data s uid gid = Inr (s, row_xp r, row_level r)"
  by (simp add: get_user_data_def)

lemma get_user_data_error: "get_user_data s uid gid = Inl e \<Longrightarrow> e = IntegrityError"
  by (auto simp: get_user_data_def insert_user_def split: option.splits if_splits sum.splits)

lemma sqlite_integer_clamped: "sqlite_integer (max 0 x) \<longleftrightarrow> max 0 x < 2 ^ 63"
  by (auto simp: sqlite_integer_def)

text \<open>
  What a call does once the read has returned: the \<^verbatim>\<open>UPDATE\<close> for a new xp in range, the
  OverflowError otherwise.
\<close>

lemma update_user_xp_on_read:
  assumes "db_connection s = Some db"
    and "get_user_data s uid gid = Inr (s1, cur_xp, cur_level)"
    and "calculate_level (max 0 (cur_xp + d)) = Inr nl"
  shows "update_user_xp s uid gid d =
     (if sqlite_integer (max 0 (cur_xp + d))
      then Inr (s1\<lparr>db_connection :=
                    map_option (\<lambda>db. update_user db (max 0 (cur_xp + d)) nl uid gid) (db_connection s1)\<rparr>,
                max 0 (cur_xp + d), nl)
      else Inl (OverflowError, s1))"
  using assms by (simp add: update_user_xp_def Let_def)

lemma update_user_xp_raises:
  assumes "update_user_xp s uid gid d = Inl (e, s')"
  shows "(e = IntegrityError \<and> s' = s \<and> get_user_data s uid gid = Inl IntegrityError)
       \<or> (e = OverflowError \<and>
           (\<exists>cur_xp cur_level. get_user_data s uid gid = Inr (s', cur_xp, cur_level)
               \<and> \<not> sqlite_integer (max 0 (cur_xp + d))))"
  using assms
  by (auto simp: update_user_xp_def Let_def split: option.splits sum.splits if_splits
      dest: get_user_data_error)

lemma update_user_xp_returns:
  assumes "update_user_xp s uid gid d = Inr (s', x, l)" and "db_connection s = Some db"
  shows "\<exists>s1 cur_xp cur_level. get_user_data s uid gid = Inr (s1, cur_xp, cur_level)
       \<and> x = max 0 (cur_xp + d) \<and> calculate_level x = Inr l \<and> sqlite_integer x
       \<and> s' = s1\<lparr>db_connection := map_option (\<lambda>db. update_user db x l uid gid) (db_connection s1)\<rparr>"
  using assms
  by (auto simp: update_user_xp_def Let_def split: option.splits sum.splits if_splits)

text \<open>
  The two files' \<^verbatim>\<open>update_user_xp\<close> return and raise alike, and leave the same database;
  bot 4.py's also queues the task.
\<close>

lemma update_user_xp_bot4_relation:
  "(case update_user_xp_bot4 s uid gid d of
      Inl (e, s') \<Rightarrow> update_user_xp s uid gid d = Inl (e, s')
    | Inr (s', x, l) \<Rightarrow>
        (\<exists>s2. update_user_xp s uid gid d = Inr (s2, x, l) \<and> db_connection s' = db_connection s2))"
  by (auto simp: update_user_xp_bot4_def update_user_xp_def Let_def
      split: option.splits sum.splits if_splits)

text \<open>
  C2, as the code has it. For a pair whose record is stored with xp \<open>row_xp r\<close>, and every
  integer \<open>delta\<close> whose new xp \<open>max 0 (row_xp r + delta)\<close> is below \<open>2 ^ 63\<close>, the bound
  of SQLite's INTEGER column, one call of \<^verbatim>\<open>update_user_xp\<close> (of either file) returns that
  new xp and the level \<open>calculate_level\<close> gives for it, and the record stored afterwards
  holds the same two values. The member at 50 XP adjusted by -1000 is the witness.
\<close>

theorem update_user_xp_contract:
  assumes "db_connection s = Some db" and "select_user db uid gid = Some r"
    and "max 0 (row_xp r + delta) < 2 ^ 63"
  shows "\<exists>s' s'' new_level.
           calculate_level (max 0 (row_xp r + delta)) = Inr new_level \<and>
           update_user_xp s uid gid delta = Inr (s', max 0 (row_xp r + delta), new_level) \<and>
           stored_record s' uid gid = Some (max 0 (row_xp r + delta), new_level) \<and>
           update_user_xp_bot4 s uid gid delta = Inr (s'', max 0 (row_xp r + delta), new_level) \<and>
           stored_record s'' uid gid = Some (max 0 (row_xp r + delta), new_level)"
proof -
  obtain nl where nl: "calculate_level (max 0 (row_xp r + delta)) = Inr nl"
    using calculate_level_total by blast
  have fits: "sqlite_integer (max 0 (row_xp r + delta))"
    using assms(3) sqlite_integer_clamped by blast
  have main: "\<exists>s'. update_user_xp s uid gid delta = Inr (s', max 0 (row_xp r + delta), nl) \<and>
           stored_record s' uid gid = Some (max 0 (row_xp r + delta), nl)"
    using assms(1,2) nl fits
    by (simp add: update_user_xp_def get_user_data_stored stored_record_def
        select_user_update_user_same Let_def)
  have bot4: "\<exists>s''. update_user_xp_bot4 s uid gid delta = Inr (s'', max 0 (row_xp r + delta), nl) \<and>
           stored_record s'' uid gid = Some (max 0 (row_xp r + delta), nl)"
    using assms(1,2) nl fits
    by (simp add: update_user_xp_bot4_def get_user_data_stored stored_record_def
        select_user_update_user_same Let_def)
  from nl main bot4 show ?thesis by blast
qed

theorem update_user_xp_contract_witness:
  "db_connection bot_xp50 = Some \<lparr>users = [\<lparr>row_user_id = 7, row_guild_id = 1, row_xp = 50, row_level = 1\<rparr>],
                                   quests = [], settings = []\<rparr>
   \<and> select_user \<lparr>users = [\<lparr>row_user_id = 7, row_guild_id = 1, row_xp = 50, row_level = 1\<rparr>],
                   quests = [], settings = []\<rparr> 7 1
       = Some \<lparr>row_user_id = 7, row_guild_id = 1, row_xp = 50, row_level = 1\<rparr>
   \<and> max 0 (50 + - 1000) < (2 ^ 63 :: int)
   \<and> (\<exists>s' s''. update_user_xp bot_xp50 7 1 (- 1000) = Inr (s', 0, 1)
         \<and> stored_record s' 7 1 = Some (0, 1)
         \<and> update_user_xp_bot4 bot_xp50 7 1 (- 1000) = Inr (s'', 0, 1)
         \<and> stored_record s'' 7 1 = Some (0, 1))"
  using update_user_xp_contract[of bot_xp50
      "\<lparr>users = [\<lparr>row_user_id = 7, row_guild_id = 1, row_xp = 50, row_level = 1\<rparr>], quests = [], settings = []\<rparr>"
      7 1 "\<lparr>row_user_id = 7, row_guild_id = 1, row_xp = 50, row_level = 1\<rparr>" "- 1000"]
  by (simp add: bot_xp50_def select_user_def calculate_level_unfold)

text \<open>
  A delta that takes the new xp to \<open>2 ^ 63\<close> or beyond, as \<^verbatim>\<open>-addXP\<close> can pass: the
  \<^verbatim>\<open>UPDATE\<close> raises OverflowError, nothing is returned and the stored record stays at
  (50, 1).
\<close>

theorem update_user_xp_overflow:
  "stored_record bot_xp50 7 1 = Some (50, 1)
   \<and> update_user_xp bot_xp50 7 1 (2 ^ 63) = Inl (OverflowError, bot_xp50)
   \<and> update_user_xp_bot4 bot_xp50 7 1 (2 ^ 63) = Inl (OverflowError, bot_xp50)"
  by (simp add: update_user_xp_def update_user_xp_bot4_def get_user_data_def bot_xp50_def
      select_user_def stored_record_def sqlite_integer_def calculate_level_unfold)

section \<open>The ledger invariant\<close>

lemma calculate_level_zero: "calculate_level 0 = Inr 1"
  by (simp add: calculate_level_unfold)

lemma get_user_data_cases:
  assumes "get_user_data s uid gid = Inr (s', x, l)"
  shows "(s' = s \<and> (db_connection s = None \<and> x = 0 \<and> l = 1 \<or> stored_record s uid gid = Some (x, l)))
       \<or> (\<exists>db. db_connection s = Some db \<and> select_user db uid gid = None \<and> x = 0 \<and> l = 1 \<and>
             s' = s\<lparr>db_connection := Some (db\<lparr>users := users db @
                    [\<lparr>row_user_id = uid, row_guild_id = gid, row_xp = 0, row_level = 1\<rparr>]\<rparr>)\<rparr>)"
  using assms
  by (auto simp: get_user_data_def insert_user_def stored_record_def
      split: option.splits if_splits sum.splits)

lemma ledger_inv_get_user_data:
  assumes "get_user_data s uid gid = Inr (s', x, l)" and "ledger_inv s"
  shows "ledger_inv s'"
  using get_user_data_cases[OF assms(1)] assms(2)
  by (auto simp: ledger_inv_def calculate_level_zero)

lemma ledger_inv_update_user:
  assumes "list_all (\<lambda>r. calculate_level (row_xp r) = Inr (row_level r)) (users db)"
    and "calculate_level nx = Inr nl"
  shows "list_all (\<lambda>r. calculate_level (row_xp r) = Inr (row_level r)) (users (update_user db nx nl uid gid))"
  using assms by (auto simp: update_user_def list_all_iff)

lemma ledger_inv_update_user_xp:
  assumes "update_user_xp s uid gid d = Inr (s', x, l)" and "ledger_inv s"
  shows "ledger_inv s'"
proof (cases "db_connection s")
  case None
  with assms show ?thesis by (simp add: update_user_xp_def)
next
  case (Some db)
  from update_user_xp_returns[OF assms(1) Some]
  obtain s1 cx cl where g: "get_user_data s uid gid = Inr (s1, cx, cl)"
    and lv: "calculate_level x = Inr l"
    and s': "s' = s1\<lparr>db_connection := map_option (\<lambda>db. update_user db x l uid gid) (db_connection s1)\<rparr>"
    by blast
  have "ledger_inv s1" using ledger_inv_get_user_data[OF g assms(2)] .
  then show ?thesis
    using lv ledger_inv_update_user unfolding s'
    by (auto simp: ledger_inv_def split: option.splits)
qed

lemma ledger_inv_update_user_xp_raises:
  assumes "update_user_xp s uid gid d = Inl (e, s')" and "ledger_inv s"
  shows "ledger_inv s'"
  using update_user_xp_raises[OF assms(1)] assms(2) ledger_inv_get_user_data by blast

lemma ledger_inv_cong: "db_connection s' = db_connection s \<Longrightarrow> ledger_inv s' = ledger_inv s"
  by (simp add: ledger_inv_def)

lemma ledger_inv_update_user_xp_bot4:
  assumes "update_user_xp_bot4 s uid gid d = Inr (s', x, l)" and "ledger_inv s"
  shows "ledger_inv s'"
proof -
  from update_user_xp_bot4_relation[of s uid gid d] assms(1)
  obtain s2 where "update_user_xp s uid gid d = Inr (s2, x, l)" "db_connection s' = db_connection s2"
    by auto
  then show ?thesis
    using ledger_inv_update_user_xp[OF _ assms(2)] ledger_inv_cong by blast
qed

lemma ledger_inv_update_user_xp_bot4_raises:
  assumes "update_user_xp_bot4 s uid gid d = Inl (e, s')" and "ledger_inv s"
  shows "ledger_inv s'"
proof -
  from update_user_xp_bot4_relation[of s uid gid d] assms(1)
  have "update_user_xp s uid gid d = Inl (e, s')" by simp
  then show ?thesis using ledger_inv_update_user_xp_raises[OF _ assms(2)] by blast
qed

lemma ledger_inv_quest_update:
  "ledger_inv (s\<lparr>db_connection := map_option (\<lambda>db1. update_quest_completed db1 c m) (db_connection s)\<rparr>) = ledger_inv s"
  by (auto simp: ledger_inv_def update_quest_completed_def split: option.splits)

lemma ledger_inv_on_reaction_add:
  assumes "on_reaction_add s ev = Inr (s', msg)" and "ledger_inv s"
  shows "ledger_inv s'"
  using assms
  by (auto simp: on_reaction_add_def Let_def ledger_inv_quest_update
      split: if_splits option.splits sum.splits dest: ledger_inv_update_user_xp)

lemma ledger_inv_on_reaction_add_raises:
  assumes "on_reaction_add s ev = Inl (e, s')" and "ledger_inv s"
  shows "ledger_inv s'"
  using assms
  by (auto simp: on_reaction_add_def Let_def
      split: if_splits option.splits sum.splits dest: ledger_inv_update_user_xp_raises)

lemma ledger_inv_on_reaction_add_bot4:
  assumes "on_reaction_add_bot4 s ev = Inr (s', msg)" and "ledger_inv s"
  shows "ledger_inv s'"
  using assms
  by (auto simp: on_reaction_add_bot4_def Let_def ledger_inv_quest_update
      split: if_splits option.splits sum.splits dest: ledger_inv_update_user_xp_bot4)

lemma ledger_inv_on_reaction_add_bot4_raises:
  assumes "on_reaction_add_bot4 s ev = Inl (e, s')" and "ledger_inv s"
  shows "ledger_inv s'"
  using assms
  by (auto simp: on_reaction_add_bot4_def Let_def
      split: if_splits option.splits sum.splits dest: ledger_inv_update_user_xp_bot4_raises)

lemma calculate_total_user_xp_state:
  assumes "calculate_total_user_xp cache s uid gid = Inr (s', tot)"
  shows "\<exists>x l. get_user_data s uid gid = Inr (s', x, l)"
  using assms
  by (auto simp: calculate_total_user_xp_def calculate_total_user_xp_try_def Let_def
      split: option.splits sum.splits)

lemma ledger_inv_calculate_total_user_xp:
  assumes "calculate_total_user_xp cache s uid gid = Inr (s', tot)" and "ledger_inv s"
  shows "ledger_inv s'"
  using calculate_total_user_xp_state[OF assms(1)] ledger_inv_get_user_data assms(2) by blast

lemma ledger_inv_save_settings: "ledger_inv (save_settings s gid) = ledger_inv s"
  by (auto simp: save_settings_def ledger_inv_def insert_or_replace_settings_def Let_def split: option.splits)

lemma ledger_inv_load_settings: "ledger_inv (load_settings s gid) = ledger_inv s"
  by (auto simp: load_settings_def ledger_inv_def split: option.splits)

lemma ledger_inv_field_updates [simp]:
  "ledger_inv (s\<lparr>quest_ping_role_id := a\<rparr>) = ledger_inv s"
  "ledger_inv (s\<lparr>quest_channel_id := b\<rparr>) = ledger_inv s"
  "ledger_inv (s\<lparr>role_xp_assignments := c\<rparr>) = ledger_inv s"
  "ledger_inv (s\<lparr>tasks := t\<rparr>) = ledger_inv s"
  by (simp_all add: ledger_inv_def)

lemma run_next_task_db:
  "run_next_task s cache os = Inr (s', cache', os') \<Longrightarrow> db_connection s' = db_connection s"
  by (auto simp: run_next_task_def split: list.splits sum.splits)

lemma ledger_inv_init: "ledger_inv init_bot"
  by (simp add: ledger_inv_def init_bot_def)

lemma reachable_ledger_inv: "reachable s \<Longrightarrow> ledger_inv s"
proof (induction rule: reachable.induct)
  case start
  show ?case by (rule ledger_inv_init)
next
  case (read s uid gid s' x l)
  then show ?case using ledger_inv_get_user_data by blast
next
  case (adjust s uid gid d s' x l)
  then show ?case using ledger_inv_update_user_xp by blast
next
  case (adjust_raises s uid gid d e s')
  then show ?case using ledger_inv_update_user_xp_raises by blast
next
  case (adjust_bot4 s uid gid d s' x l)
  then show ?case using ledger_inv_update_user_xp_bot4 by blast
next
  case (adjust_bot4_raises s uid gid d e s')
  then show ?case using ledger_inv_update_user_xp_bot4_raises by blast
next
  case (reaction s ev s' msg)
  then show ?case using ledger_inv_on_reaction_add by blast
next
  case (reaction_raises s ev e s')
  then show ?case using ledger_inv_on_reaction_add_raises by blast
next
  case (reaction_bot4 s ev s' msg)
  then show ?case using ledger_inv_on_reaction_add_bot4 by blast
next
  case (reaction_bot4_raises s ev e s')
  then show ?case using ledger_inv_on_reaction_add_bot4_raises by blast
next
  case (total s cache uid gid s' x)
  then show ?case using ledger_inv_calculate_total_user_xp by blast
next
  case (add_quest s db mid gid cid ttl body db')
  then show ?case
    by (auto simp: ledger_inv_def insert_quest_def split: if_splits)
next
  case (remove_quest s db mid)
  then show ?case
    by (auto simp: ledger_inv_def delete_quest_def)
next
  case (load s gid)
  then show ?case by (simp add: ledger_inv_load_settings)
next
  case (set_ping s allowed gid rid)
  then show ?case by (simp add: slash_set_quest_ping_def ledger_inv_save_settings)
next
  case (set_channel s allowed gid cid)
  then show ?case by (simp add: slash_set_quest_channel_def ledger_inv_save_settings)
next
  case (assign_role_xp s allowed gid rid amount)
  then show ?case by (simp add: slash_assign_role_xp_def ledger_inv_save_settings Let_def)
next
  case (run_task s cache os s' cache' os')
  then show ?case using run_next_task_db ledger_inv_cong by blast
qed

lemma stored_record_in_users:
  assumes "stored_record s uid gid = Some (x, l)"
  shows "\<exists>db r. db_connection s = Some db \<and> r \<in> set (users db) \<and> row_xp r = x \<and> row_level r = l"
proof -
  from assms obtain db r where db: "db_connection s = Some db"
    and r: "find (\<lambda>r. row_user_id r = uid \<and> row_guild_id r = gid) (users db) = Some r"
    and xl: "row_xp r = x" "row_level r = l"
    by (auto simp: stored_record_def select_user_def split: option.splits)
  from r have "r \<in> set (users db)"
    by (auto simp: find_Some_iff)
  with db xl show ?thesis by blast
qed

lemma get_user_data_creates:
  assumes "db_connection s = Some db" and "select_user db uid gid = None"
    and "get_user_data s uid gid = Inr (s', x, l)"
  shows "x = 0 \<and> l = 1 \<and> stored_record s' uid gid = Some (0, 1)"
proof -
  have found: "find (\<lambda>r. row_user_id r = uid \<and> row_guild_id r = gid)
          (xs @ [\<lparr>row_user_id = uid, row_guild_id = gid, row_xp = 0, row_level = 1\<rparr>]) =
        Some \<lparr>row_user_id = uid, row_guild_id = gid, row_xp = 0, row_level = 1\<rparr>"
    if "find (\<lambda>r. row_user_id r = uid \<and> row_guild_id r = gid) xs = None" for xs :: "user_row list"
    using that by (induction xs) (auto split: if_splits)
  from assms found[of "users db"] show ?thesis
    by (auto simp: get_user_data_def insert_user_def stored_record_def select_user_def
        split: if_splits)
qed

text \<open>
  C3. In every state the bot reaches, every row of the users table (so every stored
  record) holds \<open>level = calculate_level xp\<close>: the new database has no rows, a record
  is created by the first read or write of its pair with xp 0 and level 1, which is
  \<open>calculate_level 0\<close>, and \<^verbatim>\<open>update_user_xp\<close>, the only operation that changes a row,
  stores the level it computes from the new xp.
\<close>

theorem ledger_level_invariant:
  "(reachable s \<longrightarrow> ledger_inv s)
   \<and> (reachable s \<and> stored_record s uid gid = Some (x, l) \<longrightarrow> calculate_level x = Inr l)
   \<and> calculate_level 0 = Inr 1
   \<and> (db_connection s = Some db \<and> select_user db uid gid = None
        \<and> get_user_data s uid gid = Inr (s', x', l')
      \<longrightarrow> x' = 0 \<and> l' = 1 \<and> stored_record s' uid gid = Some (0, 1))"
proof (intro conjI impI)
  assume "reachable s"
  then show "ledger_inv s" by (rule reachable_ledger_inv)
next
  assume a: "reachable s \<and> stored_record s uid gid = Some (x, l)"
  then have inv: "ledger_inv s" using reachable_ledger_inv by blast
  from a obtain db0 r where "db_connection s = Some db0" "r \<in> set (users db0)"
    "row_xp r = x" "row_level r = l"
    using stored_record_in_users by blast
  with inv show "calculate_level x = Inr l"
    by (auto simp: ledger_inv_def list_all_iff)
next
  show "calculate_level 0 = Inr 1" by (rule calculate_level_zero)
next
  assume a: "db_connection s = Some db \<and> select_user db uid gid = None
        \<and> get_user_data s uid gid = Inr (s', x', l')"
  then have r: "x' = 0 \<and> l' = 1 \<and> stored_record s' uid gid = Some (0, 1)"
    using get_user_data_creates by blast
  from r show "x' = 0" by simp
  from r show "l' = 1" by simp
  from r show "stored_record s' uid gid = Some (0, 1)" by simp
qed

theorem ledger_level_invariant_witness:
  "reachable bot_xp120 \<and> ledger_inv bot_xp120
   \<and> stored_record bot_xp120 7 1 = Some (120, 2) \<and> calculate_level 120 = Inr 2
   \<and> db_connection init_bot = Some \<lparr>users = [], quests = [], settings = []\<rparr>
   \<and> select_user \<lparr>users = [], quests = [], settings = []\<rparr> 7 1 = None
   \<and> (\<exists>s'. get_user_data init_bot 7 1 = Inr (s', 0, 1) \<and> stored_record s' 7 1 = Some (0, 1))"
proof -
  have step: "update_user_xp init_bot 7 1 120 = Inr (bot_xp120, 120, 2)"
    by (simp add: update_user_xp_def get_user_data_def init_bot_def bot_xp120_def select_user_def
        insert_user_def update_user_def calculate_level_unfold sqlite_integer_def)
  have r: "reachable bot_xp120"
    using reachable.adjust[OF reachable.start step] .
  have st: "stored_record bot_xp120 7 1 = Some (120, 2)"
    by (simp add: stored_record_def bot_xp120_def select_user_def)
  have g: "get_user_data init_bot 7 1 = Inr
     (init_bot\<lparr>db_connection := Some \<lparr>users = [\<lparr>row_user_id = 7, row_guild_id = 1, row_xp = 0, row_level = 1\<rparr>],
                                       quests = [], settings = []\<rparr>\<rparr>, 0, 1)"
    by (simp add: get_user_data_def init_bot_def select_user_def insert_user_def)
  have d: "db_connection init_bot = Some \<lparr>users = [], quests = [], settings = []\<rparr>"
    by (simp add: init_bot_def)
  have n: "select_user \<lparr>users = [], quests = [], settings = []\<rparr> 7 1 = None"
    by (simp add: select_user_def)
  from ledger_level_invariant[of bot_xp120 7 1 120 2 "\<lparr>users = [], quests = [], settings = []\<rparr>" _ 0 1]
  have "ledger_inv bot_xp120" and "calculate_level 120 = Inr 2"
    using r st by simp_all
  moreover from ledger_level_invariant[of init_bot 7 1 0 1 "\<lparr>users = [], quests = [], settings = []\<rparr>" _ 0 1] g d n
  have "\<exists>s'. get_user_data init_bot 7 1 = Inr (s', 0, 1) \<and> stored_record s' 7 1 = Some (0, 1)"
    by blast
  ultimately show ?thesis using r st d n by simp
qed

section \<open>One row per user id\<close>

text \<open>
  C9. The users table has \<^verbatim>\<open>user_id INTEGER PRIMARY KEY\<close> beside \<^verbatim>\<open>UNIQUE(user_id,
  guild_id)\<close>, though every query names the pair. Member 7 has a record in guild 1; reading
  the same member in guild 2 finds no row for the pair, tries to insert one and raises
  IntegrityError, so no second record comes to exist.
\<close>

theorem get_user_data_second_guild:
  "stored_record bot_xp50 7 1 = Some (50, 1)
   \<and> stored_record bot_xp50 7 2 = None
   \<and> get_user_data bot_xp50 7 2 = Inl IntegrityError
   \<and> update_user_xp bot_xp50 7 2 10 = Inl (IntegrityError, bot_xp50)"
  by (simp add: get_user_data_def update_user_xp_def bot_xp50_def select_user_def insert_user_def
      stored_record_def)

text \<open>
  C1. No call loses an update to an interleaving, since every call of \<^verbatim>\<open>update_user_xp\<close>
  runs whole (\<open>run_adjusts_stored\<close> below: for a pair with a stored record the final xp
  is that of the deltas applied in the order the calls ran). What is lost are the deltas of
  a pair whose member has a row under another guild: with member 7 recorded in guild 1,
  two adjustments of +10 and +20 for (7, guild 2), run in either order, both raise and
  leave no record for the pair, where the spec has the final xp at 30.
\<close>

theorem run_adjusts_second_guild:
  "stored_record (run_adjusts bot_xp50 [(7, 2, 10), (7, 2, 20)]) 7 2 = None
   \<and> stored_record (run_adjusts bot_xp50 [(7, 2, 20), (7, 2, 10)]) 7 2 = None
   \<and> stored_record (run_adjusts_bot4 bot_xp50 [(7, 2, 10), (7, 2, 20)]) 7 2 = None
   \<and> stored_record (run_adjusts_bot4 bot_xp50 [(7, 2, 20), (7, 2, 10)]) 7 2 = None
   \<and> apply_deltas 0 [10, 20] = 30 \<and> apply_deltas 0 [20, 10] = 30"
  by (simp add: update_user_xp_def update_user_xp_bot4_def get_user_data_def bot_xp50_def
      select_user_def insert_user_def stored_record_def)

text \<open>
  For a pair with a stored record, after any list of calls (for this pair and for others,
  in any order) whose deltas for the pair keep the xp in SQLite's range, the stored xp is
  that of the pair's deltas applied in the order they ran.
\<close>

lemma find_append_other:
  "\<not> P y \<Longrightarrow> find P (xs @ [y]) = find P xs"
  by (induction xs) auto

lemma get_user_data_other_pair:
  assumes "get_user_data s u g = Inr (s1, x, l)" and "u \<noteq> uid \<or> g \<noteq> gid"
  shows "stored_record s1 uid gid = stored_record s uid gid"
  using get_user_data_cases[OF assms(1)] assms(2)
  by (auto simp: stored_record_def select_user_def find_append_other)

lemma update_user_xp_other_pair:
  assumes "u \<noteq> uid \<or> g \<noteq> gid"
  shows "(case update_user_xp s u g d of
            Inl (e, s') \<Rightarrow> stored_record s' uid gid
          | Inr (s', x, l) \<Rightarrow> stored_record s' uid gid) = stored_record s uid gid"
proof (cases "update_user_xp s u g d")
  case (Inl a)
  obtain e s' where a: "a = (e, s')" by (cases a) auto
  from update_user_xp_raises[OF Inl[unfolded a]] assms
  have "stored_record s' uid gid = stored_record s uid gid"
    using get_user_data_other_pair by blast
  with Inl a show ?thesis by simp
next
  case (Inr b)
  obtain s' x l where b: "b = (s', x, l)" by (cases b) auto
  have "stored_record s' uid gid = stored_record s uid gid"
  proof (cases "db_connection s")
    case None
    with Inr b show ?thesis by (simp add: update_user_xp_def)
  next
    case (Some db)
    from update_user_xp_returns[OF Inr[unfolded b] Some]
    obtain s1 cx cl where g: "get_user_data s u g = Inr (s1, cx, cl)"
      and s': "s' = s1\<lparr>db_connection := map_option (\<lambda>db. update_user db x l u g) (db_connection s1)\<rparr>"
      by blast
    have a: "stored_record s1 uid gid = stored_record s uid gid"
      using get_user_data_other_pair[OF g assms] .
    have "stored_record s' uid gid = stored_record s1 uid gid"
      unfolding s' using assms
      by (auto simp: stored_record_def select_user_update_user_other split: option.splits)
    with a show ?thesis by simp
  qed
  with Inr b show ?thesis by simp
qed

lemma run_adjusts_stored:
  assumes "db_connection s = Some db" and "select_user db uid gid = Some r"
    and "deltas_fit (row_xp r)
           (map (\<lambda>c. snd (snd c)) (filter (\<lambda>c. fst c = uid \<and> fst (snd c) = gid) calls))"
  shows "map_option fst (stored_record (run_adjusts s calls) uid gid) =
     Some (apply_deltas (row_xp r)
        (map (\<lambda>c. snd (snd c)) (filter (\<lambda>c. fst c = uid \<and> fst (snd c) = gid) calls)))"
  using assms
proof (induction calls arbitrary: s db r)
  case Nil
  then show ?case by (simp add: stored_record_def)
next
  case (Cons c calls)
  obtain u g d where c: "c = (u, g, d)" by (cases c) auto
  show ?case
  proof (cases "u = uid \<and> g = gid")
    case True
    obtain nl where nl: "calculate_level (max 0 (row_xp r + d)) = Inr nl"
      using calculate_level_total by blast
    let ?db' = "update_user db (max 0 (row_xp r + d)) nl uid gid"
    let ?s' = "s\<lparr>db_connection := Some ?db'\<rparr>"
    from Cons.prems(3) True c
    have fit: "sqlite_integer (max 0 (row_xp r + d))"
      and rest: "deltas_fit (max 0 (row_xp r + d))
           (map (\<lambda>c. snd (snd c)) (filter (\<lambda>c. fst c = uid \<and> fst (snd c) = gid) calls))"
      by simp_all
    have u: "update_user_xp s uid gid d = Inr (?s', max 0 (row_xp r + d), nl)"
      using update_user_xp_on_read[OF Cons.prems(1) get_user_data_stored[OF Cons.prems(1,2)] nl]
        fit Cons.prems(1) by simp
    have sel: "select_user ?db' uid gid = Some (r\<lparr>row_xp := max 0 (row_xp r + d), row_level := nl\<rparr>)"
      using Cons.prems(2) by (simp add: select_user_update_user_same)
    have "db_connection ?s' = Some ?db'" by simp
    from Cons.IH[OF this sel] rest u True c show ?thesis by simp
  next
    case False
    define s' where "s' = (case update_user_xp s u g d of Inl (e, a) \<Rightarrow> a | Inr (a, x, l) \<Rightarrow> a)"
    have step: "run_adjusts s (c # calls) = run_adjusts s' calls"
      by (auto simp: c s'_def split: sum.splits)
    have keep: "stored_record s' uid gid = stored_record s uid gid"
      using update_user_xp_other_pair[of u uid g gid s d] False
      by (auto simp: s'_def split: sum.splits)
    with Cons.prems(1,2) obtain db' r' where db': "db_connection s' = Some db'"
      and r': "select_user db' uid gid = Some r'" and xr: "row_xp r' = row_xp r"
      by (auto simp: stored_record_def split: option.splits)
    from Cons.prems(3) False c xr
    have "deltas_fit (row_xp r')
           (map (\<lambda>c. snd (snd c)) (filter (\<lambda>c. fst c = uid \<and> fst (snd c) = gid) calls))"
      by auto
    from Cons.IH[OF db' r' this] xr step False c show ?thesis by auto
  qed
qed

lemma update_user_xp_db_cong:
  assumes "db_connection s4 = db_connection s"
  shows "(case update_user_xp s4 u g d of
            Inl (e, a) \<Rightarrow> (\<exists>b. update_user_xp s u g d = Inl (e, b) \<and> db_connection a = db_connection b)
          | Inr (a, x, l) \<Rightarrow>
              (\<exists>b. update_user_xp s u g d = Inr (b, x, l) \<and> db_connection a = db_connection b))"
  using assms
  by (auto simp: update_user_xp_def get_user_data_def Let_def
      split: option.splits sum.splits if_splits)

lemma run_adjusts_bot4_db:
  "db_connection s4 = db_connection s \<Longrightarrow>
   db_connection (run_adjusts_bot4 s4 calls) = db_connection (run_adjusts s calls)"
proof (induction calls arbitrary: s4 s)
  case Nil
  then show ?case by simp
next
  case (Cons c calls)
  obtain u g d where c: "c = (u, g, d)" by (cases c) auto
  show ?case
  proof (cases "update_user_xp_bot4 s4 u g d")
    case (Inl a)
    obtain e s' where a: "a = (e, s')" by (cases a) auto
    from update_user_xp_bot4_relation[of s4 u g d] Inl a
    have "update_user_xp s4 u g d = Inl (e, s')" by simp
    with update_user_xp_db_cong[OF Cons.prems, of u g d]
    obtain b where b: "update_user_xp s u g d = Inl (e, b)" "db_connection s' = db_connection b"
      by auto
    from Cons.IH[OF b(2)] Inl a b(1) c show ?thesis by simp
  next
    case (Inr res)
    obtain s' x l where res: "res = (s', x, l)" by (cases res) auto
    from update_user_xp_bot4_relation[of s4 u g d] Inr res
    obtain s2 where s2: "update_user_xp s4 u g d = Inr (s2, x, l)"
      "db_connection s' = db_connection s2"
      by auto
    with update_user_xp_db_cong[OF Cons.prems, of u g d]
    obtain b where b: "update_user_xp s u g d = Inr (b, x, l)" "db_connection s2 = db_connection b"
      by auto
    have "db_connection s' = db_connection b" using s2(2) b(2) by simp
    from Cons.IH[OF this] Inr res b(1) c show ?thesis by simp
  qed
qed

lemma run_adjusts_bot4_stored:
  assumes "db_connection s = Some db" and "select_user db uid gid = Some r"
    and "deltas_fit (row_xp r)
           (map (\<lambda>c. snd (snd c)) (filter (\<lambda>c. fst c = uid \<and> fst (snd c) = gid) calls))"
  shows "map_option fst (stored_record (run_adjusts_bot4 s calls) uid gid) =
     Some (apply_deltas (row_xp r)
        (map (\<lambda>c. snd (snd c)) (filter (\<lambda>c. fst c = uid \<and> fst (snd c) = gid) calls)))"
proof -
  have "stored_record (run_adjusts_bot4 s calls) uid gid = stored_record (run_adjusts s calls) uid gid"
    using run_adjusts_bot4_db[of s s calls] by (simp add: stored_record_def)
  then show ?thesis using run_adjusts_stored[OF assms] by simp
qed

text \<open>
  C5. Member 7, recorded in guild 1, reacts with the check mark to the quest of message
  100 in guild 2, which nobody has completed. In bot 4.py the handler raises
  IntegrityError inside \<^verbatim>\<open>update_user_xp\<close>, before the completion list is written:
  neither the 50 XP nor the completion is stored. In main.py the handler compares the
  emoji with a literal that is not the check mark, so it returns at once and awards
  nothing, for this member as for any other.
\<close>

theorem on_reaction_add_second_guild:
  "stored_completed bot_quest 100 = Some []
   \<and> on_reaction_add_bot4 bot_quest react_7 = Inl (IntegrityError, bot_quest)
   \<and> on_reaction_add bot_quest react_7 = Inr (bot_quest, None)"
  by (simp add: on_reaction_add_def on_reaction_add_bot4_def bot_quest_def react_7_def
      stored_completed_def select_quest_def update_user_xp_bot4_def get_user_data_def
      select_user_def insert_user_def check_mark_def main_py_literal_def)

text \<open>
  In bot 4.py, when the award is made, the same reaction again changes nothing; a reaction
  to a message that is no stored quest changes nothing.
\<close>

lemma update_user_xp_bot4_quests:
  assumes "update_user_xp_bot4 s u g d = Inr (s0, x, l)" and "db_connection s = Some db"
  shows "\<exists>db0. db_connection s0 = Some db0 \<and> quests db0 = quests db"
proof -
  from update_user_xp_bot4_relation[of s u g d] assms(1)
  obtain s2 where s2: "update_user_xp s u g d = Inr (s2, x, l)" "db_connection s0 = db_connection s2"
    by auto
  from update_user_xp_returns[OF s2(1) assms(2)]
  obtain s1 cx cl where g: "get_user_data s u g = Inr (s1, cx, cl)"
    and e: "s2 = s1\<lparr>db_connection := map_option (\<lambda>db. update_user db x l u g) (db_connection s1)\<rparr>"
    by blast
  from get_user_data_cases[OF g] assms(2)
  obtain db1 where "db_connection s1 = Some db1" "quests db1 = quests db"
    by auto
  then show ?thesis using s2(2) unfolding e by (simp add: update_user_def)
qed

lemma select_quest_update_quest_completed:
  "select_quest db mid = Some q \<Longrightarrow>
   select_quest (update_quest_completed db c mid) mid = Some (q\<lparr>q_completed_users := c\<rparr>)"
proof -
  have "find (\<lambda>q. q_message_id q = mid) xs = Some q \<Longrightarrow>
        find (\<lambda>q. q_message_id q = mid)
          (map (\<lambda>q. if q_message_id q = mid then q\<lparr>q_completed_users := c\<rparr> else q) xs) =
        Some (q\<lparr>q_completed_users := c\<rparr>)" for xs :: "quest_row list"
    by (induction xs) (auto split: if_splits)
  then show "select_quest db mid = Some q \<Longrightarrow>
   select_quest (update_quest_completed db c mid) mid = Some (q\<lparr>q_completed_users := c\<rparr>)"
    by (simp add: select_quest_def update_quest_completed_def)
qed

lemma on_reaction_add_bot4_award:
  assumes "on_reaction_add_bot4 s ev = Inr (s1, Some (nx, nl))"
  shows "\<exists>db q s0. \<not> ev_user_bot ev \<and> ev_emoji ev = check_mark \<and> db_connection s = Some db
     \<and> select_quest db (ev_message_id ev) = Some q
     \<and> ev_user_id ev \<notin> set (q_completed_users q)
     \<and> update_user_xp_bot4 s (ev_user_id ev) (ev_guild_id ev) 50 = Inr (s0, nx, nl)
     \<and> s1 = s0\<lparr>db_connection := map_option
           (\<lambda>db1. update_quest_completed db1 (q_completed_users q @ [ev_user_id ev]) (ev_message_id ev))
           (db_connection s0)\<rparr>"
  using assms
  by (auto simp: on_reaction_add_bot4_def Let_def split: if_splits option.splits sum.splits)

lemma on_reaction_add_bot4_twice:
  assumes "on_reaction_add_bot4 s ev = Inr (s1, Some (nx, nl))"
  shows "on_reaction_add_bot4 s1 ev = Inr (s1, None)"
proof -
  from on_reaction_add_bot4_award[OF assms] obtain db q s0 where
    nb: "\<not> ev_user_bot ev" and em: "ev_emoji ev = check_mark" and db: "db_connection s = Some db"
    and q: "select_quest db (ev_message_id ev) = Some q"
    and u: "update_user_xp_bot4 s (ev_user_id ev) (ev_guild_id ev) 50 = Inr (s0, nx, nl)"
    and s1: "s1 = s0\<lparr>db_connection := map_option
           (\<lambda>db1. update_quest_completed db1 (q_completed_users q @ [ev_user_id ev]) (ev_message_id ev))
           (db_connection s0)\<rparr>"
    by blast
  from update_user_xp_bot4_quests[OF u db] obtain db0 where db0: "db_connection s0 = Some db0"
    "quests db0 = quests db" by blast
  then have q0: "select_quest db0 (ev_message_id ev) = Some q"
    using q by (simp add: select_quest_def)
  have "select_quest (update_quest_completed db0 (q_completed_users q @ [ev_user_id ev]) (ev_message_id ev))
      (ev_message_id ev) = Some (q\<lparr>q_completed_users := q_completed_users q @ [ev_user_id ev]\<rparr>)"
    using select_quest_update_quest_completed[OF q0] .
  then show ?thesis
    using nb em db0 unfolding s1 by (simp add: on_reaction_add_bot4_def Let_def)
qed

lemma on_reaction_add_bot4_no_quest:
  "stored_completed s (ev_message_id ev) = None \<Longrightarrow> on_reaction_add_bot4 s ev = Inr (s, None)"
  by (auto simp: on_reaction_add_bot4_def stored_completed_def split: option.splits)

section \<open>Settings\<close>

text \<open>
  C8. The ping role and the channel are one attribute each for all guilds. Guild 2 has
  ping role 20 saved and loaded; when guild 1 sets its ping role to 10, the ping role a
  handler of guild 2 works with becomes 10, while the row stored for guild 2 still says 20:
  a quest announced in guild 2 pinged role 20 before and pings no role after. The row
  written for guild 1 takes channel 200 from guild 2.
\<close>

theorem slash_set_quest_ping_other_guild:
  "cached_ping_role bot_guild2 2 = Some 20
   \<and> cached_ping_role (slash_set_quest_ping bot_guild2 True 1 10) 2 = Some 10
   \<and> map_option st_quest_ping_role_id (stored_settings (slash_set_quest_ping bot_guild2 True 1 10) 2)
       = Some (Some 20)
   \<and> add_quest_ping_role bot_guild2 guild_2 = Some \<lparr>role_id = 20, role_name = ''Questers''\<rparr>
   \<and> add_quest_ping_role (slash_set_quest_ping bot_guild2 True 1 10) guild_2 = None
   \<and> map_option st_quest_channel_id (stored_settings (slash_set_quest_ping bot_guild2 True 1 10) 1)
       = Some (Some 200)"
  by (simp add: cached_ping_role_def bot_guild2_def load_settings_def select_settings_def
      slash_set_quest_ping_def save_settings_def insert_or_replace_settings_def stored_settings_def
      add_quest_ping_role_def get_role_def guild_2_def)

text \<open>
  What does hold: saving the settings of one guild leaves the stored row and the role XP
  assignments of every other guild as they were.
\<close>

lemma save_settings_other_guild:
  assumes "a \<noteq> b"
  shows "stored_settings (save_settings s a) b = stored_settings s b
     \<and> cached_role_xp (save_settings s a) b = cached_role_xp s b"
proof -
  have "find (\<lambda>r. st_guild_id r = b) (filter (\<lambda>x. st_guild_id x \<noteq> a) xs @ [y]) =
        find (\<lambda>r. st_guild_id r = b) xs" if "st_guild_id y = a" for xs :: "settings_row list" and y
    using that assms by (induction xs) auto
  then show ?thesis
    by (auto simp: stored_settings_def save_settings_def select_settings_def
        insert_or_replace_settings_def cached_role_xp_def Let_def split: option.splits)
qed

section \<open>Total XP\<close>

lemma auto_role_xp_loop_count:
  "auto_role_xp_loop acc roles =
     acc + 5 * int (length (filter (\<lambda>r. contains (lower (role_name r)) ''badge''
                                       \<or> contains (lower (role_name r)) ''streak'') roles))"
  by (induction roles arbitrary: acc) (simp_all add: Let_def)

text \<open>
  C7, as the code has it. The \<^verbatim>\<open>elif\<close> gives a held role 5 XP once when its lower-cased name
  contains "badge" or "streak": the automatic role XP is 5 times the number of such roles,
  a role named with both words counts 5, and the member with a custom role worth 30 XP and
  a "badge-collector" role at 0 stored XP has a total of 35.
\<close>

theorem auto_role_xp_each_role_once:
  "auto_role_xp_loop 0 roles =
     5 * int (length (filter (\<lambda>r. contains (lower (role_name r)) ''badge''
                                 \<or> contains (lower (role_name r)) ''streak'') roles))
   \<and> auto_role_xp_loop 0 [\<lparr>role_id = 1, role_name = ''Badge Streak''\<rparr>] = 5
   \<and> calculate_total_user_xp cache_badge bot_badge 7 1 = Inr (bot_badge, 35)"
proof (intro conjI)
  show "auto_role_xp_loop 0 roles =
     5 * int (length (filter (\<lambda>r. contains (lower (role_name r)) ''badge''
                                 \<or> contains (lower (role_name r)) ''streak'') roles))"
    using auto_role_xp_loop_count[of 0 roles] by simp
  show "auto_role_xp_loop 0 [\<lparr>role_id = 1, role_name = ''Badge Streak''\<rparr>] = 5"
    by (simp add: lower_def lower_char_def startswith_def char_of_eq_iff)
  show "calculate_total_user_xp cache_badge bot_badge 7 1 = Inr (bot_badge, 35)"
    by (simp add: calculate_total_user_xp_def calculate_total_user_xp_try_def cache_badge_def
        guild_badge_def member_badge_def bot_badge_def get_guild_def get_member_def get_user_data_def select_user_def
        custom_role_xp_def lower_def lower_char_def startswith_def py_str_def Let_def
        char_of_eq_iff)
qed

text \<open>
  A role whose name contains both words: the loop adds 5, the spec's formula counts the
  role under "badge" and again under "streak" and gives 10.
\<close>

theorem auto_role_xp_both_words:
  "auto_role_xp_loop 0 [\<lparr>role_id = 1, role_name = ''Badge Streak''\<rparr>] = 5
   \<and> auto_role_xp_spec [\<lparr>role_id = 1, role_name = ''Badge Streak''\<rparr>] = 10"
  by (simp add: auto_role_xp_spec_def lower_def lower_char_def startswith_def char_of_eq_iff)

lemma get_user_data_attrs:
  assumes "get_user_data s uid gid = Inr (s1, x, l)"
  shows "role_xp_assignments s1 = role_xp_assignments s"
  using get_user_data_cases[OF assms] by auto

lemma custom_role_xp_cong:
  "role_xp_assignments s1 = role_xp_assignments s \<Longrightarrow>
   custom_role_xp s1 gid roles = custom_role_xp s gid roles"
  by (simp add: custom_role_xp_def)

lemma find_append_keep:
  "find P xs = Some r \<Longrightarrow> find P (xs @ ys) = Some r"
  by (induction xs) (auto split: if_splits)

lemma get_user_data_keeps_records:
  assumes "get_user_data s uid gid = Inr (s1, x, l)" and "stored_record s u g = Some rc"
  shows "stored_record s1 u g = Some rc"
  using get_user_data_cases[OF assms(1)] assms(2)
  by (auto simp: stored_record_def select_user_def find_append_keep split: option.splits)

lemma calculate_total_user_xp_resolved:
  assumes "get_user_data s uid gid = Inr (s1, base_xp, lvl)"
    and "get_guild cache gid = Some g" and "get_member g uid = Some m"
  shows "calculate_total_user_xp cache s uid gid =
     Inr (s1, max base_xp (level_role_xp_loop 0 (member_roles m)
                            + custom_role_xp s gid (member_roles m)
                            + auto_role_xp_loop 0 (member_roles m)))"
  using assms custom_role_xp_cong[OF get_user_data_attrs[OF assms(1)]]
  by (simp add: calculate_total_user_xp_def calculate_total_user_xp_try_def Let_def)

lemma calculate_total_user_xp_no_guild:
  assumes "get_user_data s uid gid = Inr (s1, base_xp, lvl)"
    and "get_guild cache gid = None"
  shows "calculate_total_user_xp cache s uid gid = Inr (s1, base_xp)"
  using assms
  by (simp add: calculate_total_user_xp_def calculate_total_user_xp_try_def)

lemma calculate_total_user_xp_no_member:
  assumes "get_user_data s uid gid = Inr (s1, base_xp, lvl)"
    and "get_guild cache gid = Some g" and "get_member g uid = None"
  shows "calculate_total_user_xp cache s uid gid = Inr (s1, base_xp)"
  using assms
  by (simp add: calculate_total_user_xp_def calculate_total_user_xp_try_def)

lemma calculate_total_user_xp_ge:
  assumes "get_user_data s uid gid = Inr (s1, base_xp, lvl)"
  shows "\<exists>tot. calculate_total_user_xp cache s uid gid = Inr (s1, tot) \<and> base_xp \<le> tot"
proof (cases "get_guild cache gid")
  case None
  then show ?thesis using calculate_total_user_xp_no_guild[OF assms] by simp
next
  case (Some g)
  show ?thesis
  proof (cases "get_member g uid")
    case None
    then show ?thesis using calculate_total_user_xp_no_member[OF assms Some] by simp
  next
    case (Some m)
    then show ?thesis
      using calculate_total_user_xp_resolved[OF assms \<open>get_guild cache gid = Some g\<close>] by simp
  qed
qed

lemma calculate_total_user_xp_error:
  assumes "get_user_data s uid gid = Inl e"
  shows "calculate_total_user_xp cache s uid gid = Inl e"
  using assms
  by (simp add: calculate_total_user_xp_def calculate_total_user_xp_try_def
      split: option.splits)

text \<open>
  C6. For a member found in the cache whose ledger read returns, the total is the maximum
  of the ledger XP and the sum of the three role amounts, and the ledger XP alone when the
  guild or the member is not found (the lemmas above); the query stores nothing of the
  total. But for member 7, recorded in guild 1 and found in guild 2's cache, the query for
  guild 2 raises IntegrityError out of \<^verbatim>\<open>get_user_data\<close>, in the body and again in the
  \<^verbatim>\<open>except\<close> handler, and returns no total.
\<close>

theorem calculate_total_user_xp_second_guild:
  "stored_record bot_xp50 7 1 = Some (50, 1)
   \<and> get_guild [guild_2_member7] 2 = Some guild_2_member7
   \<and> get_member guild_2_member7 7 =
       Some \<lparr>member_id = 7, member_roles = [\<lparr>role_id = 2, role_name = ''@everyone''\<rparr>]\<rparr>
   \<and> calculate_total_user_xp_try [guild_2_member7] bot_xp50 7 2 = Inl IntegrityError
   \<and> calculate_total_user_xp [guild_2_member7] bot_xp50 7 2 = Inl IntegrityError"
  by (simp add: calculate_total_user_xp_def calculate_total_user_xp_try_def guild_2_member7_def
      bot_xp50_def get_guild_def get_member_def get_user_data_def select_user_def insert_user_def
      stored_record_def)

section \<open>Role reconciliation\<close>

lemma update_user_level_role_returns:
  "\<exists>res. update_user_level_role cache os uid gid old_level new_level = Inr res"
  by (auto simp: update_user_level_role_def split: option.splits prod.splits error.splits)

lemma run_next_task_returns:
  "\<exists>s2 cache' os'. run_next_task s cache os = Inr (s2, cache', os')
      \<and> db_connection s2 = db_connection s \<and> tasks s2 = tl (tasks s)"
proof (cases "tasks s")
  case Nil
  then show ?thesis by (simp add: run_next_task_def)
next
  case (Cons t ts)
  obtain c1 os1 where "update_user_level_role cache os (task_user_id t) (task_guild_id t)
      (task_old_level t) (task_new_level t) = Inr (c1, os1)"
    using update_user_level_role_returns by (metis surj_pair)
  with Cons show ?thesis by (simp add: run_next_task_def)
qed

lemma get_user_data_tasks:
  "get_user_data s uid gid = Inr (s1, x, l) \<Longrightarrow> tasks s1 = tasks s"
  using get_user_data_cases[of s uid gid s1 x l] by auto

lemma update_user_xp_bot4_on_read:
  assumes "db_connection s = Some db"
    and "get_user_data s uid gid = Inr (s1, cur_xp, old_level)"
    and "calculate_level (max 0 (cur_xp + delta)) = Inr new_level"
    and "sqlite_integer (max 0 (cur_xp + delta))"
  shows "update_user_xp_bot4 s uid gid delta =
     Inr ((s1\<lparr>db_connection :=
               map_option (\<lambda>db. update_user db (max 0 (cur_xp + delta)) new_level uid gid) (db_connection s1)\<rparr>)
            \<lparr>tasks := (if old_level \<noteq> new_level
                       then tasks s @ [\<lparr>task_user_id = uid, task_guild_id = gid,
                                        task_old_level = old_level, task_new_level = new_level\<rparr>]
                       else tasks s)\<rparr>,
          max 0 (cur_xp + delta), new_level)"
  using assms get_user_data_tasks[OF assms(2)]
  by (simp add: update_user_xp_bot4_def Let_def)

lemma update_user_xp_bot4_returned:
  assumes "db_connection s = Some db"
    and "update_user_xp_bot4 s uid gid delta = Inr (sr, new_xp, new_level)"
  shows "\<exists>s1 cur_xp old_level.
           get_user_data s uid gid = Inr (s1, cur_xp, old_level) \<and>
           new_xp = max 0 (cur_xp + delta) \<and>
           calculate_level new_xp = Inr new_level \<and>
           tasks sr = (if old_level \<noteq> new_level
                       then tasks s @ [\<lparr>task_user_id = uid, task_guild_id = gid,
                                        task_old_level = old_level, task_new_level = new_level\<rparr>]
                       else tasks s)"
proof -
  from assms obtain s1 cur_xp old_level where g: "get_user_data s uid gid = Inr (s1, cur_xp, old_level)"
    by (auto simp: update_user_xp_bot4_def split: sum.splits)
  obtain nl where nl: "calculate_level (max 0 (cur_xp + delta)) = Inr nl"
    using calculate_level_total by blast
  have fit: "sqlite_integer (max 0 (cur_xp + delta))"
    using assms g nl by (auto simp: update_user_xp_bot4_def Let_def split: if_splits)
  from update_user_xp_bot4_on_read[OF assms(1) g nl fit] assms(2) g nl
  show ?thesis by auto
qed

lemma update_user_xp_bot4_raised:
  assumes "update_user_xp_bot4 s uid gid delta = Inl (e, se)"
  shows "tasks se = tasks s"
proof -
  from update_user_xp_bot4_relation[of s uid gid delta] assms
  have "update_user_xp s uid gid delta = Inl (e, se)" by simp
  from update_user_xp_raises[OF this] show ?thesis
    using get_user_data_tasks by blast
qed

text \<open>
  C10. With the database connected: when the ledger read of the pair returns and the new
  xp is inside SQLite's range, \<^verbatim>\<open>update_user_xp\<close> of bot 4.py returns the new xp and level
  with the reconciliation task appended to the loop's queue exactly when the stored level
  differs from the new one, and the queue unchanged otherwise; the task has not run when
  the call returns, and running it, whatever the platform calls do, returns and leaves the
  database, and so the record just stored, as it was. Every call that returns has queued
  the task exactly when the stored level differs from the level returned; a call that
  raises has queued nothing. \<^verbatim>\<open>update_user_level_role\<close> returns for every outcome of its
  platform calls.
\<close>

theorem update_user_xp_bot4_task:
  assumes "db_connection s = Some db"
  shows "(get_user_data s uid gid = Inr (s1, cur_xp, old_level) \<and> max 0 (cur_xp + delta) < 2 ^ 63 \<longrightarrow>
           (\<exists>s' new_level.
              calculate_level (max 0 (cur_xp + delta)) = Inr new_level \<and>
              update_user_xp_bot4 s uid gid delta = Inr (s', max 0 (cur_xp + delta), new_level) \<and>
              tasks s' = (if old_level \<noteq> new_level
                          then tasks s @ [\<lparr>task_user_id = uid, task_guild_id = gid,
                                           task_old_level = old_level, task_new_level = new_level\<rparr>]
                          else tasks s) \<and>
              (\<exists>s2 cache' os'. run_next_task s' cache os = Inr (s2, cache', os') \<and>
                  db_connection s2 = db_connection s' \<and>
                  stored_record s2 uid gid = stored_record s' uid gid \<and>
                  tasks s2 = tl (tasks s'))))
       \<and> (update_user_xp_bot4 s uid gid delta = Inr (sr, ret_xp, ret_level) \<longrightarrow>
           (\<exists>sg read_xp read_level.
              get_user_data s uid gid = Inr (sg, read_xp, read_level) \<and>
              ret_xp = max 0 (read_xp + delta) \<and>
              calculate_level ret_xp = Inr ret_level \<and>
              tasks sr = (if read_level \<noteq> ret_level
                          then tasks s @ [\<lparr>task_user_id = uid, task_guild_id = gid,
                                           task_old_level = read_level, task_new_level = ret_level\<rparr>]
                          else tasks s)))
       \<and> (update_user_xp_bot4 s uid gid delta = Inl (e, se) \<longrightarrow> tasks se = tasks s)
       \<and> (\<exists>res. update_user_level_role cache os uid gid lvl lvl' = Inr res)"
proof (intro conjI impI)
  assume a: "get_user_data s uid gid = Inr (s1, cur_xp, old_level) \<and> max 0 (cur_xp + delta) < 2 ^ 63"
  then have g: "get_user_data s uid gid = Inr (s1, cur_xp, old_level)"
    and fit: "sqlite_integer (max 0 (cur_xp + delta))"
    using sqlite_integer_clamped by blast+
  obtain nl where nl: "calculate_level (max 0 (cur_xp + delta)) = Inr nl"
    using calculate_level_total by blast
  define s' where "s' = (s1\<lparr>db_connection :=
               map_option (\<lambda>db. update_user db (max 0 (cur_xp + delta)) nl uid gid) (db_connection s1)\<rparr>)
            \<lparr>tasks := (if old_level \<noteq> nl
                       then tasks s @ [\<lparr>task_user_id = uid, task_guild_id = gid,
                                        task_old_level = old_level, task_new_level = nl\<rparr>]
                       else tasks s)\<rparr>"
  have u: "update_user_xp_bot4 s uid gid delta = Inr (s', max 0 (cur_xp + delta), nl)"
    unfolding s'_def using update_user_xp_bot4_on_read[OF assms g nl fit] .
  have t: "tasks s' = (if old_level \<noteq> nl
                          then tasks s @ [\<lparr>task_user_id = uid, task_guild_id = gid,
                                           task_old_level = old_level, task_new_level = nl\<rparr>]
                          else tasks s)"
    by (simp add: s'_def)
  obtain s2 cache' os' where r: "run_next_task s' cache os = Inr (s2, cache', os')"
    "db_connection s2 = db_connection s'" "tasks s2 = tl (tasks s')"
    using run_next_task_returns by blast
  from r(2) have "stored_record s2 uid gid = stored_record s' uid gid"
    by (simp add: stored_record_def)
  with nl u t r show "\<exists>s' new_level.
              calculate_level (max 0 (cur_xp + delta)) = Inr new_level \<and>
              update_user_xp_bot4 s uid gid delta = Inr (s', max 0 (cur_xp + delta), new_level) \<and>
              tasks s' = (if old_level \<noteq> new_level
                          then tasks s @ [\<lparr>task_user_id = uid, task_guild_id = gid,
                                           task_old_level = old_level, task_new_level = new_level\<rparr>]
                          else tasks s) \<and>
              (\<exists>s2 cache' os'. run_next_task s' cache os = Inr (s2, cache', os') \<and>
                  db_connection s2 = db_connection s' \<and>
                  stored_record s2 uid gid = stored_record s' uid gid \<and>
                  tasks s2 = tl (tasks s'))"
    by blast
next
  assume "update_user_xp_bot4 s uid gid delta = Inr (sr, ret_xp, ret_level)"
  from update_user_xp_bot4_returned[OF assms this]
  show "\<exists>sg read_xp read_level.
              get_user_data s uid gid = Inr (sg, read_xp, read_level) \<and>
              ret_xp = max 0 (read_xp + delta) \<and>
              calculate_level ret_xp = Inr ret_level \<and>
              tasks sr = (if read_level \<noteq> ret_level
                          then tasks s @ [\<lparr>task_user_id = uid, task_guild_id = gid,
                                           task_old_level = read_level, task_new_level = ret_level\<rparr>]
                          else tasks s)" .
next
  assume "update_user_xp_bot4 s uid gid delta = Inl (e, se)"
  then show "tasks se = tasks s" by (rule update_user_xp_bot4_raised)
next
  show "\<exists>res. update_user_level_role cache os uid gid lvl lvl' = Inr res"
    by (rule update_user_level_role_returns)
qed

theorem update_user_xp_bot4_task_witness:
  "db_connection init_bot = Some \<lparr>users = [], quests = [], settings = []\<rparr>
   \<and> (\<exists>s1. get_user_data init_bot 7 1 = Inr (s1, 0, 1))
   \<and> max 0 (0 + 120) < (2 ^ 63 :: int)
   \<and> update_user_xp_bot4 init_bot 7 1 120 =
        Inr (bot_xp120\<lparr>tasks := [\<lparr>task_user_id = 7, task_guild_id = 1, task_old_level = 1, task_new_level = 2\<rparr>]\<rparr>, 120, 2)
   \<and> (\<exists>s2 cache' os'.
         run_next_task (bot_xp120\<lparr>tasks := [\<lparr>task_user_id = 7, task_guild_id = 1, task_old_level = 1, task_new_level = 2\<rparr>]\<rparr>)
           cache_level1 [Raise Forbidden] = Inr (s2, cache', os')
         \<and> stored_record s2 7 1 = Some (120, 2) \<and> tasks s2 = [])
   \<and> db_connection bot_xp50 = Some \<lparr>users = [\<lparr>row_user_id = 7, row_guild_id = 1, row_xp = 50, row_level = 1\<rparr>],
                                   quests = [], settings = []\<rparr>
   \<and> update_user_xp_bot4 bot_xp50 7 1 (2 ^ 63) = Inl (OverflowError, bot_xp50)
   \<and> tasks bot_xp50 = []"
proof -
  let ?db = "\<lparr>users = [], quests = [], settings = []\<rparr>"
  let ?s1 = "init_bot\<lparr>db_connection := Some \<lparr>users = [\<lparr>row_user_id = 7, row_guild_id = 1, row_xp = 0, row_level = 1\<rparr>],
                                       quests = [], settings = []\<rparr>\<rparr>"
  let ?s' = "bot_xp120\<lparr>tasks := [\<lparr>task_user_id = 7, task_guild_id = 1, task_old_level = 1, task_new_level = 2\<rparr>]\<rparr>"
  have d: "db_connection init_bot = Some ?db"
    by (simp add: init_bot_def)
  have g: "get_user_data init_bot 7 1 = Inr (?s1, 0, 1)"
    by (simp add: get_user_data_def init_bot_def select_user_def insert_user_def)
  have b: "max 0 (0 + 120) < (2 ^ 63 :: int)"
    by simp
  have u: "update_user_xp_bot4 init_bot 7 1 120 = Inr (?s', 120, 2)"
    by (simp add: update_user_xp_bot4_def get_user_data_def init_bot_def bot_xp120_def select_user_def
        insert_user_def update_user_def calculate_level_unfold sqlite_integer_def)
  have st: "stored_record ?s' 7 1 = Some (120, 2)"
    by (simp add: stored_record_def bot_xp120_def select_user_def)
  have d50: "db_connection bot_xp50 = Some \<lparr>users = [\<lparr>row_user_id = 7, row_guild_id = 1, row_xp = 50, row_level = 1\<rparr>],
                              quests = [], settings = []\<rparr>"
    by (simp add: bot_xp50_def)
  have o50: "update_user_xp_bot4 bot_xp50 7 1 (2 ^ 63) = Inl (OverflowError, bot_xp50)"
    by (simp add: update_user_xp_bot4_def get_user_data_def bot_xp50_def select_user_def
        sqlite_integer_def calculate_level_unfold)
  have t50: "tasks bot_xp50 = []"
    by (simp add: bot_xp50_def)
  from update_user_xp_bot4_task[OF d, where uid = 7 and gid = 1 and ?s1.0 = ?s1 and cur_xp = 0
      and old_level = 1 and delta = 120 and cache = cache_level1 and os = "[Raise Forbidden]"
      and sr = ?s' and ret_xp = 120 and ret_level = 2] g u st
  have run: "\<exists>s2 cache' os'. run_next_task ?s' cache_level1 [Raise Forbidden] = Inr (s2, cache', os')
         \<and> stored_record s2 7 1 = Some (120, 2) \<and> tasks s2 = []"
    by (simp add: calculate_level_unfold) blast
  from update_user_xp_bot4_task[OF d50, where uid = 7 and gid = 1 and e = OverflowError
      and se = bot_xp50 and delta = "2 ^ 63"] o50
  have "tasks bot_xp50 = tasks bot_xp50"
    by blast
  with d g b u run d50 o50 t50 show ?thesis by blast
qed

end
